theory Spec2Isabelle
  imports Complex_Main "HOL-Library.Log_Nat"
begin

section \<open>Python floats\<close>

text \<open>
  A Python float is an IEEE 754 binary64 value: a finite double, one of the two
  infinities, or NaN. A finite double is modelled by the real number it stands for.
  The two zeros are one value here: they compare equal, and the module neither
  divides nor prints a sign. The arithmetic of the module is \<^verbatim>\<open>+\<close>, \<^verbatim>\<open>-\<close>, \<^verbatim>\<open>*\<close> and
  \<^verbatim>\<open>abs\<close>, none of which raises on floats: the result on finite operands is the
  exact result rounded to the nearest double, ties to even, and an infinity when
  the rounded value leaves the range.
\<close>

datatype pyfloat = Fin real | PInf | NInf | NaN

text \<open>The power of two with an integer exponent.\<close>

definition two_p :: "int \<Rightarrow> real" where
  "two_p k = 2 powi k"

text \<open>
  The exponent of the unit in the last place of the doubles around \<open>x\<close>: between
  \<open>2 ^ e\<close> and \<open>2 ^ (e + 1)\<close> the doubles are the multiples of \<open>2 ^ (e - 52)\<close>, and
  below \<open>2 ^ -1022\<close> they are the multiples of \<open>2 ^ -1074\<close>.
\<close>

definition ulp_exp :: "real \<Rightarrow> int" where
  "ulp_exp x = max (bitlen \<lfloor>\<bar>x\<bar> * two_p 1074\<rfloor> - 53) 0 - 1074"

text \<open>The integer nearest to \<open>q\<close>, the even one of the two when \<open>q\<close> lies half way:
  \<open>f\<close> is the floor of \<open>q\<close> and \<open>d\<close> the distance of \<open>q\<close> from it.\<close>

definition rhe_at :: "int \<Rightarrow> real \<Rightarrow> int" where
  "rhe_at f d = (if d < 1 / 2 then f else if 1 / 2 < d then f + 1
                 else if even f then f else f + 1)"

definition rhe :: "real \<Rightarrow> int" where
  "rhe q = rhe_at \<lfloor>q\<rfloor> (q - of_int \<lfloor>q\<rfloor>)"

text \<open>Rounding to the nearest multiple of the unit in the last place, and to a
  double: a value rounded to \<open>2 ^ 1024\<close> or beyond is an infinity.\<close>

definition rnd :: "real \<Rightarrow> real" where
  "rnd x = of_int (rhe (x / two_p (ulp_exp x))) * two_p (ulp_exp x)"

definition round64 :: "real \<Rightarrow> pyfloat" where
  "round64 x = (let r = rnd x in if two_p 1024 \<le> r then PInf
                else if r \<le> - two_p 1024 then NInf else Fin r)"

text \<open>Negation, \<^verbatim>\<open>abs\<close>, \<^verbatim>\<open>+\<close>, \<^verbatim>\<open>-\<close> and \<^verbatim>\<open>*\<close>.\<close>

fun fneg :: "pyfloat \<Rightarrow> pyfloat" where
  "fneg (Fin x) = Fin (- x)"
| "fneg PInf = NInf"
| "fneg NInf = PInf"
| "fneg NaN = NaN"

fun fabs :: "pyfloat \<Rightarrow> pyfloat" where
  "fabs (Fin x) = Fin \<bar>x\<bar>"
| "fabs PInf = PInf"
| "fabs NInf = PInf"
| "fabs NaN = NaN"

fun fadd :: "pyfloat \<Rightarrow> pyfloat \<Rightarrow> pyfloat" where
  "fadd (Fin a) (Fin b) = round64 (a + b)"
| "fadd (Fin a) PInf = PInf"
| "fadd (Fin a) NInf = NInf"
| "fadd PInf (Fin b) = PInf"
| "fadd PInf PInf = PInf"
| "fadd PInf NInf = NaN"
| "fadd NInf (Fin b) = NInf"
| "fadd NInf PInf = NaN"
| "fadd NInf NInf = NInf"
| "fadd NaN y = NaN"
| "fadd x NaN = NaN"

definition fsub :: "pyfloat \<Rightarrow> pyfloat \<Rightarrow> pyfloat" where
  "fsub x y = fadd x (fneg y)"

fun fmul :: "pyfloat \<Rightarrow> pyfloat \<Rightarrow> pyfloat" where
  "fmul (Fin a) (Fin b) = round64 (a * b)"
| "fmul (Fin a) PInf = (if a = 0 then NaN else if 0 < a then PInf else NInf)"
| "fmul (Fin a) NInf = (if a = 0 then NaN else if 0 < a then NInf else PInf)"
| "fmul PInf (Fin b) = (if b = 0 then NaN else if 0 < b then PInf else NInf)"
| "fmul NInf (Fin b) = (if b = 0 then NaN else if 0 < b then NInf else PInf)"
| "fmul PInf PInf = PInf"
| "fmul PInf NInf = NInf"
| "fmul NInf PInf = NInf"
| "fmul NInf NInf = PInf"
| "fmul NaN y = NaN"
| "fmul x NaN = NaN"

text \<open>The comparisons \<^verbatim>\<open><\<close>, \<^verbatim>\<open><=\<close>, \<^verbatim>\<open>>\<close> and \<^verbatim>\<open>>=\<close>: every comparison with NaN is
  false.\<close>

fun flt :: "pyfloat \<Rightarrow> pyfloat \<Rightarrow> bool" where
  "flt (Fin a) (Fin b) = (a < b)"
| "flt (Fin a) PInf = True"
| "flt (Fin a) NInf = False"
| "flt PInf y = False"
| "flt NInf (Fin b) = True"
| "flt NInf PInf = True"
| "flt NInf NInf = False"
| "flt NaN y = False"
| "flt x NaN = False"

fun fle :: "pyfloat \<Rightarrow> pyfloat \<Rightarrow> bool" where
  "fle (Fin a) (Fin b) = (a \<le> b)"
| "fle (Fin a) PInf = True"
| "fle (Fin a) NInf = False"
| "fle PInf (Fin b) = False"
| "fle PInf PInf = True"
| "fle PInf NInf = False"
| "fle NInf (Fin b) = True"
| "fle NInf PInf = True"
| "fle NInf NInf = True"
| "fle NaN y = False"
| "fle x NaN = False"

definition fgt :: "pyfloat \<Rightarrow> pyfloat \<Rightarrow> bool" where
  "fgt x y = flt y x"

definition fge :: "pyfloat \<Rightarrow> pyfloat \<Rightarrow> bool" where
  "fge x y = fle y x"

text \<open>\<^verbatim>\<open>max(0.0, x)\<close>: the builtin returns its first argument unless the second is
  greater, so NaN gives 0.0.\<close>

definition pymax0 :: "pyfloat \<Rightarrow> pyfloat" where
  "pymax0 x = (if fgt x (Fin 0) then x else Fin 0)"

section \<open>Python values, builtins and exceptions\<close>

text \<open>
  The module \<^verbatim>\<open>scripts/spatial_analysis_bbox.py\<close> works on element records: nested
  dictionaries with string keys, as a JSON parser delivers them. A value is one of
  the JSON shapes; a number is an int of any size or a float, which may be an
  infinity or NaN.
\<close>

datatype pyval =
    PNone
  | PBool bool
  | PInt int
  | PFloat pyfloat
  | PStr string
  | PList "pyval list"
  | PDict "(string \<times> pyval) list"

type_synonym pydict = "(string \<times> pyval) list"

datatype pyerr = TypeError | ValueError | AttributeError | OverflowError

text \<open>
  Three builtins of Python are used by the module and defined outside of it: the
  parser behind \<^verbatim>\<open>float(s)\<close> for a string \<open>s\<close> (which reads \<^verbatim>\<open>"nan"\<close> and
  \<^verbatim>\<open>"inf"\<close> as well, and an overlong number as an infinity), the rendering \<^verbatim>\<open>str(v)\<close> of a value
  that is not a string, and \<^verbatim>\<open>s.lower()\<close>. They are parameters of the model.
\<close>

record builtins =
  float_of_str :: "string \<Rightarrow> pyfloat option"
  str_of :: "pyval \<Rightarrow> string"
  lower :: "string \<Rightarrow> string"

definition bindE :: "'e + 'a \<Rightarrow> ('a \<Rightarrow> 'e + 'b) \<Rightarrow> 'e + 'b" where
  "bindE m f = (case m of Inl e \<Rightarrow> Inl e | Inr x \<Rightarrow> f x)"

text \<open>Truth value of a Python object, as \<^verbatim>\<open>or\<close>, \<^verbatim>\<open>not\<close> and \<^verbatim>\<open>if\<close> read it. A float
  is false when it equals zero: NaN and the infinities are true.\<close>

fun truthy :: "pyval \<Rightarrow> bool" where
  "truthy PNone = False"
| "truthy (PBool b) = b"
| "truthy (PInt i) = (i \<noteq> 0)"
| "truthy (PFloat f) = (f \<noteq> Fin 0)"
| "truthy (PStr s) = (s \<noteq> [])"
| "truthy (PList xs) = (xs \<noteq> [])"
| "truthy (PDict kvs) = (kvs \<noteq> [])"

text \<open>\<^verbatim>\<open>a or b\<close>: the first operand when it is true, the second otherwise.\<close>

definition py_or :: "pyval \<Rightarrow> pyval \<Rightarrow> pyval" where
  "py_or a b = (if truthy a then a else b)"

text \<open>\<^verbatim>\<open>d.get(k)\<close> and \<^verbatim>\<open>d.get(k, default)\<close> on a dictionary.\<close>

definition dget_default :: "pydict \<Rightarrow> string \<Rightarrow> pyval \<Rightarrow> pyval" where
  "dget_default d k dflt = (case map_of d k of None \<Rightarrow> dflt | Some v \<Rightarrow> v)"

definition dget :: "pydict \<Rightarrow> string \<Rightarrow> pyval" where
  "dget d k = dget_default d k PNone"

text \<open>
  \<^verbatim>\<open>v.get(k)\<close> on a value that need not be a dictionary: only dictionaries have
  the method, anything else raises AttributeError.
\<close>

definition attr_get :: "pyval \<Rightarrow> string \<Rightarrow> pyerr + pyval" where
  "attr_get v k = (case v of PDict d \<Rightarrow> Inr (dget d k) | _ \<Rightarrow> Inl AttributeError)"

text \<open>\<^verbatim>\<open>v.get(k, v.get(K))\<close>: the lower-case key, else the capitalised one, else None.\<close>

definition attr_get2 :: "pyval \<Rightarrow> string \<Rightarrow> string \<Rightarrow> pyerr + pyval" where
  "attr_get2 v k K =
     (case v of PDict d \<Rightarrow> Inr (dget_default d k (dget d K)) | _ \<Rightarrow> Inl AttributeError)"

text \<open>
  \<^verbatim>\<open>float(v)\<close>: None, lists and dictionaries raise TypeError, a string that is not
  a number raises ValueError, a bool is 0 or 1, a float is returned as it is. An int
  is rounded to the nearest double, and one whose rounding leaves the range of the
  doubles raises OverflowError.
\<close>

fun to_float :: "builtins \<Rightarrow> pyval \<Rightarrow> pyerr + pyfloat" where
  "to_float B PNone = Inl TypeError"
| "to_float B (PBool b) = Inr (Fin (if b then 1 else 0))"
| "to_float B (PInt i) =
     (case round64 (of_int i) of Fin r \<Rightarrow> Inr (Fin r) | _ \<Rightarrow> Inl OverflowError)"
| "to_float B (PFloat f) = Inr f"
| "to_float B (PStr s) = (case float_of_str B s of None \<Rightarrow> Inl ValueError | Some f \<Rightarrow> Inr f)"
| "to_float B (PList xs) = Inl TypeError"
| "to_float B (PDict kvs) = Inl TypeError"

text \<open>\<^verbatim>\<open>str(v)\<close>: a string is returned as it is.\<close>

definition py_str :: "builtins \<Rightarrow> pyval \<Rightarrow> string" where
  "py_str B v = (case v of PStr s \<Rightarrow> s | _ \<Rightarrow> str_of B v)"

section \<open>BBox3D\<close>

record BBox3D =
  minx :: pyfloat
  miny :: pyfloat
  minz :: pyfloat
  maxx :: pyfloat
  maxy :: pyfloat
  maxz :: pyfloat
  name :: string

text \<open>Lines 22 to 25 of the constructor: a pair is swapped when its first member is
  greater than its second, which is never the case when one of them is NaN.\<close>

definition BBox3D_norm ::
  "pyfloat \<Rightarrow> pyfloat \<Rightarrow> pyfloat \<Rightarrow> pyfloat \<Rightarrow> pyfloat \<Rightarrow> pyfloat \<Rightarrow> string
     \<Rightarrow> BBox3D" where
  "BBox3D_norm x0 y0 z0 x1 y1 z1 nm =
     \<lparr> minx = (if fgt x0 x1 then x1 else x0),
       miny = (if fgt y0 y1 then y1 else y0),
       minz = (if fgt z0 z1 then z1 else z0),
       maxx = (if fgt x0 x1 then x0 else x1),
       maxy = (if fgt y0 y1 then y0 else y1),
       maxz = (if fgt z0 z1 then z0 else z1),
       name = nm \<rparr>"

text \<open>
  The constructor on arbitrary arguments: the six calls of \<^verbatim>\<open>float\<close> in the order
  of the source, each of which may raise, then the normalisation.
\<close>

definition BBox3D_init ::
  "builtins \<Rightarrow> pyval \<Rightarrow> pyval \<Rightarrow> pyval \<Rightarrow> pyval \<Rightarrow> pyval \<Rightarrow> pyval \<Rightarrow> string
     \<Rightarrow> pyerr + BBox3D" where
  "BBox3D_init B a b c d e f nm =
     bindE (to_float B a) (\<lambda>x0.
     bindE (to_float B b) (\<lambda>y0.
     bindE (to_float B c) (\<lambda>z0.
     bindE (to_float B d) (\<lambda>x1.
     bindE (to_float B e) (\<lambda>y1.
     bindE (to_float B f) (\<lambda>z1.
       Inr (BBox3D_norm x0 y0 z0 x1 y1 z1 nm)))))))"

text \<open>
  \<^verbatim>\<open>max(0.0, dx) * max(0.0, dy) * max(0.0, dz)\<close>: three float differences, each
  replaced by 0.0 unless it is greater, and two float products, the left one first.
\<close>

definition volume :: "BBox3D \<Rightarrow> pyfloat" where
  "volume bb =
     fmul (fmul (pymax0 (fsub (maxx bb) (minx bb))) (pymax0 (fsub (maxy bb) (miny bb))))
          (pymax0 (fsub (maxz bb) (minz bb)))"

record BBoxDict =
  d_minx :: pyfloat
  d_miny :: pyfloat
  d_minz :: pyfloat
  d_maxx :: pyfloat
  d_maxy :: pyfloat
  d_maxz :: pyfloat
  d_volume :: pyfloat
  d_name :: string

definition to_dict :: "BBox3D \<Rightarrow> BBoxDict" where
  "to_dict bb =
     \<lparr> d_minx = minx bb, d_miny = miny bb, d_minz = minz bb,
       d_maxx = maxx bb, d_maxy = maxy bb, d_maxz = maxz bb,
       d_volume = volume bb, d_name = name bb \<rparr>"

section \<open>The containment classifier\<close>

datatype ContainmentType = FullyContained | PartiallyContained | Outside

text \<open>The widened bounds \<^verbatim>\<open>container.minx - eps\<close> and \<^verbatim>\<open>container.maxx + eps\<close> are
  float differences and sums, and the tests are float comparisons.\<close>

definition classify_containment_aabb ::
  "BBox3D \<Rightarrow> BBox3D \<Rightarrow> pyfloat \<Rightarrow> ContainmentType" where
  "classify_containment_aabb container elem eps =
     (let inside_x = (fge (minx elem) (fsub (minx container) eps) \<and>
                      fle (maxx elem) (fadd (maxx container) eps));
          inside_y = (fge (miny elem) (fsub (miny container) eps) \<and>
                      fle (maxy elem) (fadd (maxy container) eps));
          inside_z = (fge (minz elem) (fsub (minz container) eps) \<and>
                      fle (maxz elem) (fadd (maxz container) eps))
      in if inside_x \<and> inside_y \<and> inside_z then FullyContained
         else
          (let overlap_x = (fge (maxx elem) (fsub (minx container) eps) \<and>
                            fle (minx elem) (fadd (maxx container) eps));
               overlap_y = (fge (maxy elem) (fsub (miny container) eps) \<and>
                            fle (miny elem) (fadd (maxy container) eps));
               overlap_z = (fge (maxz elem) (fsub (minz container) eps) \<and>
                            fle (minz elem) (fadd (maxz container) eps))
           in if overlap_x \<and> overlap_y \<and> overlap_z then PartiallyContained else Outside))"

text \<open>
  The two per-axis tests in the words of the specification. A range is given by its
  two ends. \<open>range_within lo hi LO HI\<close>: the range from \<open>lo\<close> to \<open>hi\<close> lies within the
  range from \<open>LO\<close> to \<open>HI\<close>. \<open>ranges_intersect lo hi LO HI\<close>: the two ranges have a
  point in common. The container's range widened by epsilon reaches from the float
  \<open>lo - eps\<close> to the float \<open>hi + eps\<close>.
\<close>

definition range_within :: "pyfloat \<Rightarrow> pyfloat \<Rightarrow> pyfloat \<Rightarrow> pyfloat \<Rightarrow> bool" where
  "range_within lo hi LO HI = (fle LO lo \<and> fle hi HI)"

definition ranges_intersect :: "pyfloat \<Rightarrow> pyfloat \<Rightarrow> pyfloat \<Rightarrow> pyfloat \<Rightarrow> bool" where
  "ranges_intersect lo hi LO HI = (fle LO hi \<and> fle lo HI)"

definition inside_all :: "BBox3D \<Rightarrow> BBox3D \<Rightarrow> pyfloat \<Rightarrow> bool" where
  "inside_all c e eps =
     (range_within (minx e) (maxx e) (fsub (minx c) eps) (fadd (maxx c) eps) \<and>
      range_within (miny e) (maxy e) (fsub (miny c) eps) (fadd (maxy c) eps) \<and>
      range_within (minz e) (maxz e) (fsub (minz c) eps) (fadd (maxz c) eps))"

definition overlap_all :: "BBox3D \<Rightarrow> BBox3D \<Rightarrow> pyfloat \<Rightarrow> bool" where
  "overlap_all c e eps =
     (ranges_intersect (minx e) (maxx e) (fsub (minx c) eps) (fadd (maxx c) eps) \<and>
      ranges_intersect (miny e) (maxy e) (fsub (miny c) eps) (fadd (maxy c) eps) \<and>
      ranges_intersect (minz e) (maxz e) (fsub (minz c) eps) (fadd (maxz c) eps))"

section \<open>Bounding-box derivation\<close>

text \<open>\<^verbatim>\<open>_maybe_get(d, *path)\<close>: follow the keys as long as the current value is a
  dictionary that has the key; None otherwise.\<close>

fun maybe_get :: "pyval \<Rightarrow> string list \<Rightarrow> pyval" where
  "maybe_get cur [] = cur"
| "maybe_get cur (k # path) =
     (case cur of
        PDict d \<Rightarrow> (case map_of d k of None \<Rightarrow> PNone | Some v \<Rightarrow> maybe_get v path)
      | _ \<Rightarrow> PNone)"

text \<open>\<^verbatim>\<open>try: return e  except Exception: return None\<close>\<close>

definition catch_none :: "pyerr + 'a \<Rightarrow> 'a option" where
  "catch_none m = (case m of Inl err \<Rightarrow> None | Inr x \<Rightarrow> Some x)"

text \<open>
  \<^verbatim>\<open>min(xs)\<close> and \<^verbatim>\<open>max(xs)\<close> of a list of floats. On the empty list Python raises
  ValueError; both callers return before that, on \<^verbatim>\<open>not xs\<close>. The builtin keeps
  the first item and replaces it by a later one that compares less (greater).
\<close>

fun py_min :: "pyfloat list \<Rightarrow> pyfloat" where
  "py_min (x # xs) = foldl (\<lambda>m v. if flt v m then v else m) x xs"

fun py_max :: "pyfloat list \<Rightarrow> pyfloat" where
  "py_max (x # xs) = foldl (\<lambda>m v. if fgt v m then v else m) x xs"

definition bbox_from_direct_dict :: "builtins \<Rightarrow> pyval \<Rightarrow> string \<Rightarrow> BBox3D option" where
  "bbox_from_direct_dict B bbox_dict nm =
     (case bbox_dict of
        PDict bd \<Rightarrow>
          (let minp = py_or (py_or (dget bd ''min'') (dget bd ''Min'')) (PDict []);
               maxp = py_or (py_or (dget bd ''max'') (dget bd ''Max'')) (PDict [])
           in catch_none
                (bindE (attr_get minp ''x'') (\<lambda>a.
                 bindE (attr_get minp ''y'') (\<lambda>b.
                 bindE (attr_get minp ''z'') (\<lambda>c.
                 bindE (attr_get maxp ''x'') (\<lambda>d.
                 bindE (attr_get maxp ''y'') (\<lambda>e.
                 bindE (attr_get maxp ''z'') (\<lambda>f.
                   BBox3D_init B a b c d e f nm))))))))
      | _ \<Rightarrow> None)"

text \<open>\<^verbatim>\<open>float(v.get(k, v.get(K)))\<close>\<close>

definition read_coord :: "builtins \<Rightarrow> pyval \<Rightarrow> string \<Rightarrow> string \<Rightarrow> pyerr + pyfloat" where
  "read_coord B v k K = bindE (attr_get2 v k K) (to_float B)"

text \<open>
  The body of the loop over the vertices. Each \<^verbatim>\<open>append\<close> happens as soon as its
  own coordinate is converted; an exception at a later coordinate leaves the earlier
  appends in place and goes on with the next vertex.
\<close>

fun mesh_vertex ::
  "builtins \<Rightarrow> pyfloat list \<times> pyfloat list \<times> pyfloat list \<Rightarrow> pyval
     \<Rightarrow> pyfloat list \<times> pyfloat list \<times> pyfloat list" where
  "mesh_vertex B (xs, ys, zs) v =
     (case read_coord B v ''x'' ''X'' of
        Inl err \<Rightarrow> (xs, ys, zs)
      | Inr x \<Rightarrow>
         (case read_coord B v ''y'' ''Y'' of
            Inl err \<Rightarrow> (xs @ [x], ys, zs)
          | Inr y \<Rightarrow>
             (case read_coord B v ''z'' ''Z'' of
                Inl err \<Rightarrow> (xs @ [x], ys @ [y], zs)
              | Inr z \<Rightarrow> (xs @ [x], ys @ [y], zs @ [z]))))"

definition bbox_from_mesh_vertices :: "builtins \<Rightarrow> pydict \<Rightarrow> string \<Rightarrow> BBox3D option" where
  "bbox_from_mesh_vertices B elem nm =
     (case py_or (maybe_get (PDict elem) [''geometry'', ''mesh'', ''vertices''])
                 (maybe_get (PDict elem) [''geometry'', ''vertices'']) of
        PList verts \<Rightarrow>
          (if verts = [] then None
           else (let (xs, ys, zs) = foldl (mesh_vertex B) ([], [], []) verts
                 in if xs = [] \<or> ys = [] \<or> zs = [] then None
                    else Some (BBox3D_norm (py_min xs) (py_min ys) (py_min zs)
                                           (py_max xs) (py_max ys) (py_max zs) nm)))
      | _ \<Rightarrow> None)"

fun boundary_point ::
  "builtins \<Rightarrow> pyfloat list \<times> pyfloat list \<Rightarrow> pyval \<Rightarrow> pyfloat list \<times> pyfloat list" where
  "boundary_point B (xs, ys) p =
     (case read_coord B p ''x'' ''X'' of
        Inl err \<Rightarrow> (xs, ys)
      | Inr x \<Rightarrow>
         (case read_coord B p ''y'' ''Y'' of
            Inl err \<Rightarrow> (xs @ [x], ys)
          | Inr y \<Rightarrow> (xs @ [x], ys @ [y])))"

text \<open>
  The conversions of the base elevation and of the height (lines 101 and 102) stand
  outside of any \<^verbatim>\<open>try\<close>: their exception leaves the function.
\<close>

definition bbox_from_boundary_height ::
  "builtins \<Rightarrow> pydict \<Rightarrow> string \<Rightarrow> pyerr + BBox3D option" where
  "bbox_from_boundary_height B elem nm =
     (case py_or (py_or (dget elem ''room_boundary_2d'') (dget elem ''boundary_2d''))
                 (maybe_get (PDict elem) [''room'', ''boundary_2d'']) of
        PList boundary \<Rightarrow>
          (if length boundary < 3 then Inr None
           else (let (xs, ys) = foldl (boundary_point B) ([], []) boundary
                 in if xs = [] \<or> ys = [] then Inr None
                    else (let base = dget_default elem ''base_elevation''
                                       (maybe_get (PDict elem) [''room'', ''base_elevation'']);
                              height = dget_default elem ''height''
                                       (maybe_get (PDict elem) [''room'', ''height''])
                          in if base = PNone \<or> height = PNone then Inr None
                             else bindE (to_float B base) (\<lambda>z0.
                                  bindE (to_float B base) (\<lambda>b.
                                  bindE (to_float B height) (\<lambda>h.
                                    Inr (Some (BBox3D_norm (py_min xs) (py_min ys) z0
                                                 (py_max xs) (py_max ys) (fadd b h) nm))))))))
      | _ \<Rightarrow> Inr None)"

definition bbox_from_location_size :: "builtins \<Rightarrow> pydict \<Rightarrow> string \<Rightarrow> BBox3D option" where
  "bbox_from_location_size B elem nm =
     (case (dget elem ''location'', dget elem ''size'') of
        (PDict loc, PDict szd) \<Rightarrow>
          (case catch_none
                  (bindE (to_float B (dget_default loc ''x'' (dget loc ''X''))) (\<lambda>cx.
                   bindE (to_float B (dget_default loc ''y'' (dget loc ''Y''))) (\<lambda>cy.
                   bindE (to_float B (dget_default loc ''z'' (dget_default loc ''Z'' (PInt 0)))) (\<lambda>cz.
                   bindE (to_float B (dget_default szd ''x'' (dget_default szd ''X'' (PInt 0)))) (\<lambda>sx.
                   bindE (to_float B (dget_default szd ''y'' (dget_default szd ''Y'' (PInt 0)))) (\<lambda>sy.
                   bindE (to_float B (dget_default szd ''z'' (dget_default szd ''Z'' (PInt 0)))) (\<lambda>sz.
                     Inr (cx, cy, cz, fabs sx, fabs sy, fabs sz)))))))) of
             None \<Rightarrow> None
           | Some (cx, cy, cz, sx, sy, sz) \<Rightarrow>
               (let halfx = fmul sx (Fin 0.5); halfy = fmul sy (Fin 0.5);
                    halfz = fmul sz (Fin 0.5)
                in Some (BBox3D_norm (fsub cx halfx) (fsub cy halfy) (fsub cz halfz)
                                     (fadd cx halfx) (fadd cy halfy) (fadd cz halfz) nm)))
      | _ \<Rightarrow> None)"

subsection \<open>The label of an element\<close>

definition name_keys :: "string list" where
  "name_keys = [''name'', ''element_name'', ''displayName'', ''Display Name'',
                ''Element Name'', ''Type Name'', ''Family and Type'']"

definition prop_names :: "string list" where
  "prop_names = [''name'', ''element name'', ''display name'', ''type name'',
                 ''family and type'']"

fun first_truthy :: "pydict \<Rightarrow> string list \<Rightarrow> pyval option" where
  "first_truthy elem [] = None"
| "first_truthy elem (k # ks) =
     (let v = dget elem k in if truthy v then Some v else first_truthy elem ks)"

text \<open>
  The loop over the property records. \<^verbatim>\<open>prop.get\<close> is called outside of any
  \<^verbatim>\<open>try\<close>: a property that is not a dictionary raises AttributeError.
\<close>

fun props_name :: "builtins \<Rightarrow> pyval list \<Rightarrow> pyerr + string option" where
  "props_name B [] = Inr None"
| "props_name B (prop # props) =
     (case prop of
        PDict p \<Rightarrow>
          (let n = lower B (py_str B (dget_default p ''name'' (PStr [])))
           in if n \<in> set prop_names
              then (let val = dget p ''value''
                    in if truthy val then Inr (Some (py_str B val)) else props_name B props)
              else props_name B props)
      | _ \<Rightarrow> Inl AttributeError)"

definition element_name :: "builtins \<Rightarrow> pydict \<Rightarrow> pyerr + string" where
  "element_name B elem =
     (case first_truthy elem name_keys of
        Some v \<Rightarrow> Inr (py_str B v)
      | None \<Rightarrow>
          (let fallback = Inr (py_str B (py_or (py_or (dget elem ''externalId'') (dget elem ''id''))
                                               (PStr ''Unknown'')))
           in case maybe_get (PDict elem) [''properties'', ''results''] of
                PList props \<Rightarrow>
                  (case props_name B props of
                     Inl err \<Rightarrow> Inl err
                   | Inr (Some s) \<Rightarrow> Inr s
                   | Inr None \<Rightarrow> fallback)
              | _ \<Rightarrow> fallback))"

subsection \<open>The chain of strategies\<close>

text \<open>
  A \<^verbatim>\<open>BBox3D\<close> object defines neither \<^verbatim>\<open>__bool__\<close> nor \<^verbatim>\<open>__len__\<close>, so
  \<^verbatim>\<open>if bb\<close> tests for None only.
\<close>

definition compute_bbox_from_element :: "builtins \<Rightarrow> pydict \<Rightarrow> pyerr + BBox3D option" where
  "compute_bbox_from_element B element =
     bindE (element_name B element) (\<lambda>nm.
       case bbox_from_direct_dict B
              (py_or (py_or (py_or (py_or (dget element ''bbox'') (dget element ''BBox''))
                                   (dget element ''boundingBox''))
                            (dget element ''BoundingBox''))
                     (PDict [])) nm of
         Some bb \<Rightarrow> Inr (Some bb)
       | None \<Rightarrow>
          (case bbox_from_mesh_vertices B element nm of
             Some bb \<Rightarrow> Inr (Some bb)
           | None \<Rightarrow>
              bindE (bbox_from_boundary_height B element nm) (\<lambda>r.
                case r of
                  Some bb \<Rightarrow> Inr (Some bb)
                | None \<Rightarrow> Inr (bbox_from_location_size B element nm))))"

section \<open>The containment analysis\<close>

record SkippedRec =
  s_id :: pyval
  s_name :: string
  s_reason :: string

record ContainedRec =
  c_id :: pyval
  c_externalId :: pyval
  c_name :: string
  c_category :: pyval
  c_containment_type :: ContainmentType
  c_bbox :: BBoxDict

record ContainerInfo =
  ci_name :: string
  ci_bbox :: BBoxDict

record Summary =
  total_candidates :: nat
  fully_contained :: nat
  partially_contained :: nat

text \<open>
  The result dictionary. \<open>grouped_by_category\<close> is a Python dictionary, which keeps
  its keys in the order of their insertion: an association list in that order.
\<close>

record Results =
  container :: ContainerInfo
  contained :: "ContainedRec list"
  skipped :: "SkippedRec list"
  summary :: Summary
  grouped_by_category :: "(pyval \<times> ContainedRec list) list"

datatype Analysis =
    AnalysisError string pydict
  | AnalysisResult Results

text \<open>
  Keys of a Python dictionary. Lists and dictionaries have no hash: using one as a
  key raises TypeError. Two keys are the same key when they are equal in Python,
  where a bool, an int and a float of the same numeric value are equal; an int is
  compared with a float at its exact value, which \<open>Fin\<close> holds here without rounding.
  A dictionary finds a key by identity before it asks for equality. Identity of
  objects is not part of this model; the one value it matters for is NaN, which is
  not equal to itself, and a NaN key is taken to be found again, as it is when the
  records come from the JSON decoder, which hands out one NaN object.
\<close>

fun hashable :: "pyval \<Rightarrow> bool" where
  "hashable (PList xs) = False"
| "hashable (PDict kvs) = False"
| "hashable v = True"

fun key_class :: "pyval \<Rightarrow> pyfloat + pyval" where
  "key_class (PBool b) = Inl (Fin (if b then 1 else 0))"
| "key_class (PInt i) = Inl (Fin (of_int i))"
| "key_class (PFloat f) = Inl f"
| "key_class v = Inr v"

definition key_eq :: "pyval \<Rightarrow> pyval \<Rightarrow> bool" where
  "key_eq a b = (key_class a = key_class b)"

text \<open>\<^verbatim>\<open>g.setdefault(k, []).append(r)\<close> for a hashable key \<open>k\<close>.\<close>

fun setdefault_append :: "(pyval \<times> 'a list) list \<Rightarrow> pyval \<Rightarrow> 'a \<Rightarrow> (pyval \<times> 'a list) list" where
  "setdefault_append [] k r = [(k, [r])]"
| "setdefault_append ((k', rs) # g) k r =
     (if key_eq k' k then (k', rs @ [r]) # g else (k', rs) # setdefault_append g k r)"

text \<open>
  The result dictionary as it stands when the loop over the candidates begins
  (lines 163 to 185, for a container whose box was derived).
\<close>

definition init_results :: "BBox3D \<Rightarrow> nat \<Rightarrow> Results" where
  "init_results container_bb n =
     \<lparr> container = \<lparr> ci_name = name container_bb, ci_bbox = to_dict container_bb \<rparr>,
       contained = [],
       skipped = [],
       summary = \<lparr> total_candidates = n, fully_contained = 0, partially_contained = 0 \<rparr>,
       grouped_by_category = [] \<rparr>"

text \<open>The pieces of the loop body: the identity and the category of a candidate, the
  two records it may add, the counters, and the three updates of a contained
  candidate (lines 209 to 216).\<close>

definition elem_id :: "pydict \<Rightarrow> pyval" where
  "elem_id elem = py_or (dget elem ''id'') (dget elem ''externalId'')"

definition elem_category :: "pydict \<Rightarrow> pyval" where
  "elem_category elem =
     py_or (py_or (dget elem ''category'') (dget elem ''Category'')) (PStr ''Uncategorized'')"

definition skipped_entry :: "pydict \<Rightarrow> string \<Rightarrow> SkippedRec" where
  "skipped_entry elem nm =
     \<lparr> s_id = elem_id elem, s_name = nm, s_reason = ''No geometry/bbox found'' \<rparr>"

definition contained_rec :: "pydict \<Rightarrow> string \<Rightarrow> ContainmentType \<Rightarrow> BBox3D \<Rightarrow> ContainedRec" where
  "contained_rec elem nm ctype bb =
     \<lparr> c_id = elem_id elem,
       c_externalId = dget elem ''externalId'',
       c_name = nm,
       c_category = elem_category elem,
       c_containment_type = ctype,
       c_bbox = to_dict bb \<rparr>"

definition count_ctype :: "ContainmentType \<Rightarrow> Summary \<Rightarrow> Summary" where
  "count_ctype ctype s =
     (if ctype = FullyContained then s\<lparr> fully_contained := fully_contained s + 1 \<rparr>
      else if ctype = PartiallyContained then s\<lparr> partially_contained := partially_contained s + 1 \<rparr>
      else s)"

definition add_contained :: "Results \<Rightarrow> ContainedRec \<Rightarrow> pyerr + Results" where
  "add_contained results r =
     (if hashable (c_category r)
      then Inr (results\<lparr> contained := contained results @ [r],
                        summary := count_ctype (c_containment_type r) (summary results),
                        grouped_by_category :=
                          setdefault_append (grouped_by_category results) (c_category r) r \<rparr>)
      else Inl TypeError)"

text \<open>The body of the loop over the candidates (lines 188 to 216).\<close>

definition analyze_step ::
  "builtins \<Rightarrow> BBox3D \<Rightarrow> pyfloat \<Rightarrow> Results \<Rightarrow> pydict \<Rightarrow> pyerr + Results" where
  "analyze_step B container_bb eps results elem =
     bindE (compute_bbox_from_element B elem) (\<lambda>bbo.
       case bbo of
         None \<Rightarrow>
           bindE (element_name B elem) (\<lambda>nm.
             Inr (results\<lparr> skipped := skipped results @ [skipped_entry elem nm] \<rparr>))
       | Some bb \<Rightarrow>
           (let ctype = classify_containment_aabb container_bb bb eps
            in if ctype \<noteq> Outside
               then bindE (element_name B elem) (\<lambda>nm.
                      add_contained results (contained_rec elem nm ctype bb))
               else Inr results))"


fun analyze_loop ::
  "builtins \<Rightarrow> BBox3D \<Rightarrow> pyfloat \<Rightarrow> Results \<Rightarrow> pydict list \<Rightarrow> pyerr + Results" where
  "analyze_loop B container_bb eps results [] = Inr results"
| "analyze_loop B container_bb eps results (elem # elems) =
     (case analyze_step B container_bb eps results elem of
        Inl err \<Rightarrow> Inl err
      | Inr results' \<Rightarrow> analyze_loop B container_bb eps results' elems)"

definition analyze_containment_by_bboxes ::
  "builtins \<Rightarrow> pydict \<Rightarrow> pydict list \<Rightarrow> pyfloat \<Rightarrow> pyerr + Analysis" where
  "analyze_containment_by_bboxes B container_element candidate_elements eps =
     bindE (compute_bbox_from_element B container_element) (\<lambda>cb.
       case cb of
         None \<Rightarrow>
           Inr (AnalysisError ''No bounding box could be derived for container element''
                  container_element)
       | Some container_bb \<Rightarrow>
           bindE (analyze_loop B container_bb eps
                    (init_results container_bb (length candidate_elements)) candidate_elements)
             (\<lambda>results. Inr (AnalysisResult results)))"

section \<open>An instance of the builtins\<close>

text \<open>
  For evaluating the functions on concrete records. The records below hold numbers
  where a coordinate is read and strings where a label is read, so \<open>float_of_str\<close>
  and \<open>str_of\<close> of this instance are never consulted on them.
\<close>

definition ascii_lower :: "char \<Rightarrow> char" where
  "ascii_lower c =
     (let n = (of_char c :: nat) in if 65 \<le> n \<and> n \<le> 90 then char_of (n + 32) else c)"

definition sample_builtins :: builtins where
  "sample_builtins =
     \<lparr> float_of_str = (\<lambda>s. None), str_of = (\<lambda>v. ''?''), lower = map ascii_lower \<rparr>"

section \<open>Notions of the specification\<close>

text \<open>
  What becomes of a candidate, read off the two functions the loop body calls: it is
  skipped when no box is derived for it, contained when its box is classified as
  fully or partially contained, outside when its box is classified as outside.
\<close>

definition is_skipped :: "builtins \<Rightarrow> pydict \<Rightarrow> bool" where
  "is_skipped B e = (compute_bbox_from_element B e = Inr None)"

definition is_contained :: "builtins \<Rightarrow> BBox3D \<Rightarrow> pyfloat \<Rightarrow> pydict \<Rightarrow> bool" where
  "is_contained B cbb eps e =
     (case compute_bbox_from_element B e of
        Inr (Some bb) \<Rightarrow> classify_containment_aabb cbb bb eps \<noteq> Outside
      | _ \<Rightarrow> False)"

definition is_outside :: "builtins \<Rightarrow> BBox3D \<Rightarrow> pyfloat \<Rightarrow> pydict \<Rightarrow> bool" where
  "is_outside B cbb eps e =
     (case compute_bbox_from_element B e of
        Inr (Some bb) \<Rightarrow> classify_containment_aabb cbb bb eps = Outside
      | _ \<Rightarrow> False)"

text \<open>
  The categories of a list in the order of their first appearance: a category that
  is the same dictionary key as an earlier one is left out.
\<close>

fun first_seen :: "pyval list \<Rightarrow> pyval list" where
  "first_seen [] = []"
| "first_seen (k # ks) = k # first_seen (filter (\<lambda>k'. \<not> key_eq k k') ks)"

text \<open>The grouping of a list of records, built record by record as the loop does.\<close>

definition group_records :: "ContainedRec list \<Rightarrow> (pyval \<times> ContainedRec list) list" where
  "group_records rs = foldl (\<lambda>g r. setdefault_append g (c_category r) r) [] rs"

text \<open>Half of the absolute value of a size, as a float.\<close>

definition half_size :: "pyfloat \<Rightarrow> pyfloat" where
  "half_size s = fmul (fabs s) (Fin (1 / 2))"

text \<open>
  The center and size strategy in the words of the specification: the center record
  and the size record each expose x, y and z under either spelling, and z alone has
  the default 0 when it is absent.
\<close>

definition spec_location_size :: "builtins \<Rightarrow> pydict \<Rightarrow> string \<Rightarrow> BBox3D option" where
  "spec_location_size B elem nm =
     (case (dget elem ''location'', dget elem ''size'') of
        (PDict loc, PDict szd) \<Rightarrow>
          (case (to_float B (dget_default loc ''x'' (dget loc ''X'')),
                 to_float B (dget_default loc ''y'' (dget loc ''Y'')),
                 to_float B (dget_default loc ''z'' (dget_default loc ''Z'' (PInt 0))),
                 to_float B (dget_default szd ''x'' (dget szd ''X'')),
                 to_float B (dget_default szd ''y'' (dget szd ''Y'')),
                 to_float B (dget_default szd ''z'' (dget_default szd ''Z'' (PInt 0)))) of
             (Inr cx, Inr cy, Inr cz, Inr sx, Inr sy, Inr sz) \<Rightarrow>
               Some \<lparr> minx = fsub cx (half_size sx), miny = fsub cy (half_size sy),
                      minz = fsub cz (half_size sz),
                      maxx = fadd cx (half_size sx), maxy = fadd cy (half_size sy),
                      maxz = fadd cz (half_size sz),
                      name = nm \<rparr>
           | _ \<Rightarrow> None)
      | _ \<Rightarrow> None)"






text \<open>
  The volume of a box is computed without overflow when no extent, and not the
  product of the x and y extents, is an infinity.
\<close>

definition volume_in_range :: "BBox3D \<Rightarrow> bool" where
  "volume_in_range bb =
     (fsub (maxx bb) (minx bb) \<noteq> PInf \<and> fsub (maxy bb) (miny bb) \<noteq> PInf \<and>
      fsub (maxz bb) (minz bb) \<noteq> PInf \<and>
      fmul (pymax0 (fsub (maxx bb) (minx bb))) (pymax0 (fsub (maxy bb) (miny bb))) \<noteq> PInf)"

section \<open>Sample records\<close>

definition sample_point :: "int \<Rightarrow> int \<Rightarrow> int \<Rightarrow> pyval" where
  "sample_point x y z = PDict [(''x'', PInt x), (''y'', PInt y), (''z'', PInt z)]"

definition sample_capital_point :: "int \<Rightarrow> int \<Rightarrow> int \<Rightarrow> pyval" where
  "sample_capital_point x y z = PDict [(''X'', PInt x), (''Y'', PInt y), (''Z'', PInt z)]"

definition sample_box_elem :: "string \<Rightarrow> pyval \<Rightarrow> pyval \<Rightarrow> pydict" where
  "sample_box_elem nm lo hi =
     [(''id'', PStr (''id-'' @ nm)), (''name'', PStr nm),
      (''bbox'', PDict [(''min'', lo), (''max'', hi)])]"

text \<open>The scenario of the specification: a room and the candidates A, B and C, and a
  candidate without any geometry.\<close>

definition sample_room :: pydict where
  "sample_room = sample_box_elem ''Room'' (sample_point 0 0 0) (sample_point 10 10 10)"

definition sample_A :: pydict where
  "sample_A = sample_box_elem ''A'' (sample_point 1 1 1) (sample_point 2 2 2)"

definition sample_B :: pydict where
  "sample_B = sample_box_elem ''B'' (sample_point 9 9 9) (sample_point 15 15 15)"

definition sample_C :: pydict where
  "sample_C = sample_box_elem ''C'' (sample_point 20 20 20) (sample_point 21 21 21)"

definition sample_bare :: pydict where
  "sample_bare = [(''id'', PStr ''n1'')]"

text \<open>The default of \<^verbatim>\<open>eps\<close>: the double nearest to 1e-4.\<close>

definition sample_eps :: pyfloat where
  "sample_eps = Fin (7378697629483821 / 2 ^ 66)"

text \<open>A box given by six finite coordinates.\<close>

definition fbox :: "real \<Rightarrow> real \<Rightarrow> real \<Rightarrow> real \<Rightarrow> real \<Rightarrow> real \<Rightarrow> string \<Rightarrow> BBox3D" where
  "fbox x0 y0 z0 x1 y1 z1 nm =
     \<lparr> minx = Fin x0, miny = Fin y0, minz = Fin z0,
       maxx = Fin x1, maxy = Fin y1, maxz = Fin z1, name = nm \<rparr>"


text \<open>The box from \<open>-2 ^ 1023\<close> to \<open>2 ^ 1023\<close> in x, both finite doubles, flat in y
  and of height 1 in z.\<close>

definition sample_huge_box :: BBox3D where
  "sample_huge_box =
     \<lparr> minx = Fin (- two_p 1023), miny = Fin 0, minz = Fin 0,
       maxx = Fin (two_p 1023), maxy = Fin 0, maxz = Fin 1, name = ''w'' \<rparr>"

text \<open>\<^verbatim>\<open>{"location": {"x": 5, "y": 5, "z": 0}, "size": {"x": 2, "y": 2, "z": 2}}\<close>\<close>

definition sample_location_size :: pydict where
  "sample_location_size =
     [(''location'', sample_point 5 5 0), (''size'', sample_point 2 2 2)]"

text \<open>\<^verbatim>\<open>{"location": {"x": 5, "y": 5, "z": 0}, "size": {"z": 2}}\<close>\<close>

definition sample_size_z_only :: pydict where
  "sample_size_z_only =
     [(''location'', sample_point 5 5 0), (''size'', PDict [(''z'', PInt 2)])]"

text \<open>\<^verbatim>\<open>{"min": {"X": 0, "Y": 0, "Z": 0}, "max": {"X": 1, "Y": 1, "Z": 1}}\<close>\<close>

definition sample_capital_bbox :: pyval where
  "sample_capital_bbox =
     PDict [(''min'', sample_capital_point 0 0 0), (''max'', sample_capital_point 1 1 1)]"

text \<open>\<^verbatim>\<open>{"geometry": {"mesh": {"vertices": [{"x": 0, "y": 0, "z": 0}, {"x": 100}]}}}\<close>\<close>

definition sample_mesh :: pydict where
  "sample_mesh =
     [(''geometry'', PDict [(''mesh'', PDict [(''vertices'',
        PList [sample_point 0 0 0, PDict [(''x'', PInt 100)]])])])]"

text \<open>\<^verbatim>\<open>{"name": "Room 1", "room_boundary_2d": [{"x": 0, "y": 0}, {"x": 4, "y": 0},
  {"x": 4, "y": 3}], "base_elevation": {"value": 0, "unit": "m"}, "height": 3}\<close>\<close>

definition sample_bad_base :: pydict where
  "sample_bad_base =
     [(''name'', PStr ''Room 1''),
      (''room_boundary_2d'',
         PList [PDict [(''x'', PInt 0), (''y'', PInt 0)],
                PDict [(''x'', PInt 4), (''y'', PInt 0)],
                PDict [(''x'', PInt 4), (''y'', PInt 3)]]),
      (''base_elevation'', PDict [(''value'', PInt 0), (''unit'', PStr ''m'')]),
      (''height'', PInt 3)]"

text \<open>\<^verbatim>\<open>{"id": "r2", "room_boundary_2d": [{"x": 0, "y": 0}, {"x": 4, "y": 0},
  {"x": 4, "y": 3}], "base_elevation": 0, "height": {"value": 3, "unit": "m"}}\<close>\<close>

definition sample_bad_height :: pydict where
  "sample_bad_height =
     [(''id'', PStr ''r2''),
      (''room_boundary_2d'',
         PList [PDict [(''x'', PInt 0), (''y'', PInt 0)],
                PDict [(''x'', PInt 4), (''y'', PInt 0)],
                PDict [(''x'', PInt 4), (''y'', PInt 3)]]),
      (''base_elevation'', PInt 0),
      (''height'', PDict [(''value'', PInt 3), (''unit'', PStr ''m'')])]"

text \<open>The result of the analysis of the four candidates A, B, C and the bare one
  against the room, with the default epsilon.\<close>

definition sample_rec_A :: ContainedRec where
  "sample_rec_A =
     \<lparr> c_id = PStr ''id-A'', c_externalId = PNone, c_name = ''A'',
       c_category = PStr ''Uncategorized'', c_containment_type = FullyContained,
       c_bbox = \<lparr> d_minx = Fin 1, d_miny = Fin 1, d_minz = Fin 1,
                  d_maxx = Fin 2, d_maxy = Fin 2, d_maxz = Fin 2,
                  d_volume = Fin 1, d_name = ''A'' \<rparr> \<rparr>"

definition sample_rec_B :: ContainedRec where
  "sample_rec_B =
     \<lparr> c_id = PStr ''id-B'', c_externalId = PNone, c_name = ''B'',
       c_category = PStr ''Uncategorized'', c_containment_type = PartiallyContained,
       c_bbox = \<lparr> d_minx = Fin 9, d_miny = Fin 9, d_minz = Fin 9,
                  d_maxx = Fin 15, d_maxy = Fin 15, d_maxz = Fin 15,
                  d_volume = Fin 216, d_name = ''B'' \<rparr> \<rparr>"

definition sample_result :: Results where
  "sample_result =
     \<lparr> container =
         \<lparr> ci_name = ''Room'',
           ci_bbox = \<lparr> d_minx = Fin 0, d_miny = Fin 0, d_minz = Fin 0,
                       d_maxx = Fin 10, d_maxy = Fin 10, d_maxz = Fin 10,
                       d_volume = Fin 1000, d_name = ''Room'' \<rparr> \<rparr>,
       contained = [sample_rec_A, sample_rec_B],
       skipped = [\<lparr> s_id = PStr ''n1'', s_name = ''n1'',
                    s_reason = ''No geometry/bbox found'' \<rparr>],
       summary = \<lparr> total_candidates = 4, fully_contained = 1, partially_contained = 1 \<rparr>,
       grouped_by_category = [(PStr ''Uncategorized'', [sample_rec_A, sample_rec_B])] \<rparr>"

section \<open>Rounding\<close>

subsection \<open>Powers of two and the unit in the last place\<close>

lemma two_p_pos [simp]: "0 < two_p k"
  by (simp add: two_p_def)

lemma two_p_nonneg [simp]: "0 \<le> two_p k"
  by (simp add: two_p_def)

lemma two_p_neq0 [simp]: "two_p k \<noteq> 0"
  by (simp add: two_p_def)

lemma two_p_add: "two_p (m + n) = two_p m * two_p n"
  by (simp add: two_p_def power_int_add)

lemma two_p_split: "two_p e = two_p (e - q) * two_p q"
  by (simp add: two_p_add [symmetric])

lemma two_p_less_iff [simp]: "two_p m < two_p n \<longleftrightarrow> m < n"
proof
  assume "two_p m < two_p n"
  show "m < n"
  proof (rule ccontr)
    assume "\<not> m < n"
    then have "(2::real) powi n \<le> 2 powi m"
      by (intro power_int_increasing) simp_all
    with \<open>two_p m < two_p n\<close> show False by (simp add: two_p_def)
  qed
next
  assume "m < n"
  then show "two_p m < two_p n"
    unfolding two_p_def by (intro power_int_strict_increasing) simp_all
qed

lemma two_p_le_iff [simp]: "two_p m \<le> two_p n \<longleftrightarrow> m \<le> n"
  by (metis two_p_less_iff not_le le_less less_irrefl)

lemma two_p_nat: "0 \<le> k \<Longrightarrow> two_p k = 2 ^ nat k"
  by (simp add: two_p_def power_int_nonneg_exp)

lemma two_p_0 [simp]: "two_p 0 = 1"
  by (simp add: two_p_def)

lemma one_le_two_p: "0 \<le> k \<Longrightarrow> 1 \<le> two_p k"
  using two_p_le_iff [of 0 k] by simp

lemma ulp_exp_ge: "- 1074 \<le> ulp_exp x"
  by (simp add: ulp_exp_def)

lemma scale_pow: "y * two_p 1074 < two_p k \<longleftrightarrow> y < two_p (k - 1074)"
proof -
  have "two_p k = two_p (k - 1074) * two_p 1074"
    by (rule two_p_split)
  then show ?thesis by (simp only: mult_less_cancel_right_pos [OF two_p_pos])
qed

lemma scale_pow_le: "two_p k \<le> y * two_p 1074 \<longleftrightarrow> two_p (k - 1074) \<le> y"
proof -
  have "two_p k = two_p (k - 1074) * two_p 1074"
    by (rule two_p_split)
  then show ?thesis by (simp only: mult_le_cancel_right_pos [OF two_p_pos])
qed

lemma of_int_pow2_le: "(k::int) \<le> 2 ^ n \<Longrightarrow> real_of_int k \<le> 2 ^ n"
  by (metis of_int_le_iff of_int_numeral of_int_power)

lemma of_int_pow2_ge: "2 ^ n \<le> (k::int) \<Longrightarrow> 2 ^ n \<le> real_of_int k"
  by (metis of_int_le_iff of_int_numeral of_int_power)

lemma ulp_exp_upper: "\<bar>x\<bar> < two_p (ulp_exp x + 53)"
proof -
  let ?N = "\<lfloor>\<bar>x\<bar> * two_p 1074\<rfloor>"
  have q: "ulp_exp x + 53 = max (bitlen ?N) 53 - 1074"
    by (simp add: ulp_exp_def)
  have N0: "0 \<le> ?N" by simp
  have "\<bar>x\<bar> * two_p 1074 < two_p (max (bitlen ?N) 53)"
  proof (cases "?N = 0")
    case True
    then have "\<bar>x\<bar> * two_p 1074 < 1"
      by (metis floor_less_iff int_one_le_iff_zero_less le_less not_le of_int_1 zero_less_one)
    also have "(1::real) \<le> two_p (max (bitlen ?N) 53)"
      by (rule one_le_two_p) simp
    finally show ?thesis .
  next
    case False
    with N0 have pos: "0 < ?N" by linarith
    have "\<bar>x\<bar> * two_p 1074 < of_int (?N + 1)"
      by linarith
    also have "?N + 1 \<le> 2 ^ nat (bitlen ?N)"
      using bitlen_bounds [OF pos] by linarith
    then have "real_of_int (?N + 1) \<le> 2 ^ nat (bitlen ?N)"
      by (rule of_int_pow2_le)
    also have "(2::real) ^ nat (bitlen ?N) = two_p (bitlen ?N)"
      by (simp add: two_p_nat bitlen_nonneg)
    also have "two_p (bitlen ?N) \<le> two_p (max (bitlen ?N) 53)"
      by simp
    finally show ?thesis .
  qed
  then show ?thesis
    by (simp only: q scale_pow)
qed

lemma ulp_exp_lower:
  assumes "- 1074 < ulp_exp x"
  shows "two_p (ulp_exp x + 52) \<le> \<bar>x\<bar>"
proof -
  let ?N = "\<lfloor>\<bar>x\<bar> * two_p 1074\<rfloor>"
  from assms have b: "53 < bitlen ?N"
    by (simp add: ulp_exp_def max_def split: if_splits)
  then have q: "ulp_exp x + 52 = (bitlen ?N - 1) - 1074"
    by (simp add: ulp_exp_def max_def)
  from b have pos: "0 < ?N"
    by (metis bitlen_eq_zero_iff not_le less_trans zero_less_numeral less_irrefl)
  have "two_p (bitlen ?N - 1) = 2 ^ nat (bitlen ?N - 1)"
    using b by (simp add: two_p_nat)
  also have "(2::int) ^ nat (bitlen ?N - 1) \<le> ?N"
    using bitlen_bounds [OF pos] by simp
  then have "(2::real) ^ nat (bitlen ?N - 1) \<le> of_int ?N"
    by (rule of_int_pow2_ge)
  also have "of_int ?N \<le> \<bar>x\<bar> * two_p 1074"
    by (rule of_int_floor_le)
  finally show ?thesis
    by (simp only: q scale_pow_le)
qed

lemma ulp_exp_eqI:
  assumes "- 1074 < q" "two_p (q + 52) \<le> \<bar>x\<bar>" "\<bar>x\<bar> < two_p (q + 53)"
  shows "ulp_exp x = q"
proof (rule antisym)
  show "ulp_exp x \<le> q"
  proof (rule ccontr)
    assume "\<not> ulp_exp x \<le> q"
    then have g: "q < ulp_exp x" by simp
    with assms(1) have "two_p (ulp_exp x + 52) \<le> \<bar>x\<bar>"
      by (intro ulp_exp_lower) simp
    from this assms(3) have "two_p (ulp_exp x + 52) < two_p (q + 53)"
      by (rule le_less_trans)
    then have "ulp_exp x + 52 < q + 53"
      by simp
    with g show False by simp
  qed
next
  show "q \<le> ulp_exp x"
  proof (rule ccontr)
    assume "\<not> q \<le> ulp_exp x"
    then have g: "ulp_exp x + 53 \<le> q + 52" by simp
    have "\<bar>x\<bar> < two_p (ulp_exp x + 53)" by (rule ulp_exp_upper)
    also have "two_p (ulp_exp x + 53) \<le> two_p (q + 52)"
      using g by simp
    finally show False using assms(2) by simp
  qed
qed

lemma ulp_exp_small:
  assumes "\<bar>x\<bar> < two_p (- 1021)"
  shows "ulp_exp x = - 1074"
proof (rule ccontr)
  assume "ulp_exp x \<noteq> - 1074"
  with ulp_exp_ge [of x] have g: "- 1074 < ulp_exp x" by simp
  then have "two_p (ulp_exp x + 52) \<le> \<bar>x\<bar>" by (rule ulp_exp_lower)
  from this assms have "two_p (ulp_exp x + 52) < two_p (- 1021)"
    by (rule le_less_trans)
  then have "ulp_exp x + 52 < - 1021"
    by simp
  with g show False by simp
qed

lemma ulp_exp_mono:
  assumes "\<bar>a\<bar> \<le> \<bar>b\<bar>"
  shows "ulp_exp a \<le> ulp_exp b"
proof (rule ccontr)
  assume "\<not> ulp_exp a \<le> ulp_exp b"
  then have g: "ulp_exp b < ulp_exp a" by simp
  with ulp_exp_ge [of b] have "- 1074 < ulp_exp a" by simp
  then have "two_p (ulp_exp a + 52) \<le> \<bar>a\<bar>" by (rule ulp_exp_lower)
  also note assms
  also have "\<bar>b\<bar> < two_p (ulp_exp b + 53)" by (rule ulp_exp_upper)
  finally have "ulp_exp a + 52 < ulp_exp b + 53"
    by simp
  with g show False by simp
qed

lemma ulp_exp_minus [simp]: "ulp_exp (- x) = ulp_exp x"
  by (simp add: ulp_exp_def)

subsection \<open>Rounding to the nearest integer, ties to even\<close>

lemma rhe_unfold: "rhe q = rhe_at \<lfloor>q\<rfloor> (q - of_int \<lfloor>q\<rfloor>)"
  by (rule rhe_def)

lemma rhe_at_mono: "d \<le> d' \<Longrightarrow> rhe_at f d \<le> rhe_at f d'"
  by (simp add: rhe_at_def)

lemma rhe_at_range: "f \<le> rhe_at f d \<and> rhe_at f d \<le> f + 1"
  by (simp add: rhe_at_def)

lemma rhe_at_minus: "rhe_at (- f - 1) (1 - d) = - rhe_at f d"
  by (simp add: rhe_at_def)

lemma rhe_of_int [simp]: "rhe (of_int k) = k"
  by (simp add: rhe_unfold rhe_at_def)

lemma rhe_range: "\<lfloor>q\<rfloor> \<le> rhe q \<and> rhe q \<le> \<lfloor>q\<rfloor> + 1"
  by (simp only: rhe_unfold rhe_at_range)

lemma rhe_mono:
  assumes "a \<le> b"
  shows "rhe a \<le> rhe b"
proof (cases "\<lfloor>a\<rfloor> = \<lfloor>b\<rfloor>")
  case True
  from assms have "a - of_int \<lfloor>b\<rfloor> \<le> b - of_int \<lfloor>b\<rfloor>" by simp
  then show ?thesis
    by (simp only: rhe_unfold True rhe_at_mono)
next
  case False
  with assms have "\<lfloor>a\<rfloor> < \<lfloor>b\<rfloor>"
    by (simp add: floor_mono le_neq_trans)
  with rhe_range [of a] rhe_range [of b] show ?thesis by linarith
qed

lemma rhe_eqI:
  assumes "\<bar>y - of_int n\<bar> < 1 / 2"
  shows "rhe y = n"
proof -
  from assms have lo: "of_int n - 1 / 2 < y" and hi: "y < of_int n + 1 / 2"
    by linarith+
  from lo have "of_int (n - 1) \<le> y" by simp
  then have l: "n - 1 \<le> \<lfloor>y\<rfloor>" by (simp only: le_floor_iff)
  from hi have "y < of_int (n + 1)" by simp
  then have "\<lfloor>y\<rfloor> < n + 1" by (simp only: floor_less_iff)
  with l have "\<lfloor>y\<rfloor> = n \<or> \<lfloor>y\<rfloor> = n - 1" by linarith
  then show ?thesis
  proof
    assume f: "\<lfloor>y\<rfloor> = n"
    from hi have "y - of_int n < 1 / 2" by simp
    then show ?thesis by (simp add: rhe_unfold f rhe_at_def)
  next
    assume f: "\<lfloor>y\<rfloor> = n - 1"
    from lo have "1 / 2 < y - of_int (n - 1)" by simp
    then show ?thesis by (simp add: rhe_unfold f rhe_at_def)
  qed
qed

lemma rhe_minus: "rhe (- q) = - rhe q"
proof (cases "q = of_int \<lfloor>q\<rfloor>")
  case True
  then obtain k where "q = of_int k" ..
  then show ?thesis
    by (metis of_int_minus rhe_of_int)
next
  case False
  then have fl: "\<lfloor>- q\<rfloor> = - \<lfloor>q\<rfloor> - 1"
    by (simp add: floor_minus ceiling_altdef)
  have "- q - of_int (- \<lfloor>q\<rfloor> - 1) = 1 - (q - of_int \<lfloor>q\<rfloor>)" by simp
  then show ?thesis
    by (simp only: rhe_unfold fl rhe_at_minus)
qed

lemma rhe_nonneg: "0 \<le> q \<Longrightarrow> 0 \<le> rhe q"
  using rhe_mono [of 0 q] rhe_of_int [of 0] by simp

subsection \<open>Rounding to the grid\<close>

lemma rnd_zero [simp]: "rnd 0 = 0"
  using rhe_of_int [of 0] by (simp add: rnd_def)

lemma rnd_minus: "rnd (- x) = - rnd x"
  by (simp add: rnd_def rhe_minus)

lemma rnd_nonneg: "0 \<le> x \<Longrightarrow> 0 \<le> rnd x"
  by (simp add: rnd_def rhe_nonneg)

lemma rnd_nonpos: "x \<le> 0 \<Longrightarrow> rnd x \<le> 0"
  using rnd_nonneg [of "- x"] by (simp add: rnd_minus)

lemma grid_conv:
  assumes "q \<le> e"
  shows "of_int k * two_p e = of_int (k * 2 ^ nat (e - q)) * two_p q"
proof -
  have "two_p e = two_p (e - q) * two_p q" by (rule two_p_split)
  also have "two_p (e - q) = 2 ^ nat (e - q)"
    using assms by (simp add: two_p_nat)
  finally show ?thesis by simp
qed

lemma rnd_grid:
  assumes "ulp_exp x \<le> e"
  shows "rnd x \<le> of_int k * two_p e \<longleftrightarrow>
         rhe (x / two_p (ulp_exp x)) \<le> k * 2 ^ nat (e - ulp_exp x)"
    and "of_int k * two_p e \<le> rnd x \<longleftrightarrow>
         k * 2 ^ nat (e - ulp_exp x) \<le> rhe (x / two_p (ulp_exp x))"
proof -
  let ?q = "ulp_exp x"
  note e = grid_conv [OF assms, of k]
  show "rnd x \<le> of_int k * two_p e \<longleftrightarrow> rhe (x / two_p ?q) \<le> k * 2 ^ nat (e - ?q)"
    unfolding e rnd_def
    by (simp only: mult_le_cancel_right_pos [OF two_p_pos] of_int_le_iff)
  show "of_int k * two_p e \<le> rnd x \<longleftrightarrow> k * 2 ^ nat (e - ?q) \<le> rhe (x / two_p ?q)"
    unfolding e rnd_def
    by (simp only: mult_le_cancel_right_pos [OF two_p_pos] of_int_le_iff)
qed

lemma grid_div:
  assumes "q \<le> e"
  shows "(of_int k * two_p e) / two_p q = of_int (k * 2 ^ nat (e - q))"
  by (simp only: grid_conv [OF assms]) simp

lemma abs_scaled_less:
  assumes "\<bar>m\<bar> < 2 ^ 53"
  shows "\<bar>of_int m * two_p e\<bar> < two_p (e + 53)"
proof -
  have "real_of_int \<bar>m\<bar> < 2 ^ 53"
    using assms by (metis of_int_less_iff of_int_numeral of_int_power)
  then have "real_of_int \<bar>m\<bar> * two_p e < 2 ^ 53 * two_p e"
    by (simp only: mult_less_cancel_right_pos [OF two_p_pos])
  moreover have "(2::real) ^ 53 = two_p 53"
    by (simp only: two_p_def power_int_numeral)
  moreover have "\<bar>of_int m * two_p e\<bar> = real_of_int \<bar>m\<bar> * two_p e"
    by (simp add: abs_mult)
  ultimately show ?thesis
    by (simp only: two_p_add [symmetric] add.commute [of 53 e])
qed

lemma rnd_exact:
  assumes "\<bar>m\<bar> < 2 ^ 53" "- 1074 \<le> e"
  shows "rnd (of_int m * two_p e) = of_int m * two_p e"
proof -
  let ?x = "of_int m * two_p e :: real"
  let ?q = "ulp_exp ?x"
  have qe: "?q \<le> e"
  proof (rule ccontr)
    assume "\<not> ?q \<le> e"
    then have g: "e < ?q" by simp
    with assms(2) have "two_p (?q + 52) \<le> \<bar>?x\<bar>"
      by (intro ulp_exp_lower) simp
    also have "\<bar>?x\<bar> < two_p (e + 53)"
      using assms(1) by (rule abs_scaled_less)
    finally have "?q + 52 < e + 53"
      by simp
    with g show False by simp
  qed
  have "rhe (?x / two_p ?q) = m * 2 ^ nat (e - ?q)"
    by (simp only: grid_div [OF qe] rhe_of_int)
  then have "rnd ?x = of_int (m * 2 ^ nat (e - ?q)) * two_p ?q"
    by (simp only: rnd_def)
  then show ?thesis
    by (simp only: grid_conv [OF qe, symmetric])
qed

lemma rnd_int:
  assumes "\<bar>k\<bar> < 2 ^ 53"
  shows "rnd (of_int k) = of_int k"
  using rnd_exact [OF assms, of 0] by simp

lemma rnd_mono_pos:
  assumes "0 \<le> a" "a \<le> b"
  shows "rnd a \<le> rnd b"
proof -
  let ?qa = "ulp_exp a" and ?qb = "ulp_exp b"
  from assms have ab: "\<bar>a\<bar> \<le> \<bar>b\<bar>" by simp
  then have q: "?qa \<le> ?qb" by (rule ulp_exp_mono)
  show ?thesis
  proof (cases "?qa = ?qb")
    case True
    have "a / two_p ?qb \<le> b / two_p ?qb"
      using assms by (simp add: divide_right_mono)
    then have "rhe (a / two_p ?qb) \<le> rhe (b / two_p ?qb)" by (rule rhe_mono)
    then show ?thesis
      by (simp add: rnd_def True mult_right_mono)
  next
    case False
    with q have lt: "?qa < ?qb" by simp
    with ulp_exp_ge [of a] have pb: "- 1074 < ?qb" by simp
    let ?p = "of_int 1 * two_p (?qb + 52) :: real"
    have pb': "?p \<le> b"
      using ulp_exp_lower [OF pb] assms by simp
    have "a < two_p (?qa + 53)"
      using ulp_exp_upper [of a] assms by simp
    also have "two_p (?qa + 53) \<le> two_p (?qb + 52)"
      using lt by simp
    finally have ap: "a \<le> ?p" by simp
    have "rnd a \<le> ?p"
    proof -
      have le: "?qa \<le> ?qb + 52" using lt by simp
      have "a / two_p ?qa \<le> ?p / two_p ?qa"
        using ap by (intro divide_right_mono) simp_all
      also have "?p / two_p ?qa = of_int (1 * 2 ^ nat (?qb + 52 - ?qa))"
        by (rule grid_div [OF le])
      finally have "rhe (a / two_p ?qa) \<le> rhe (of_int (1 * 2 ^ nat (?qb + 52 - ?qa)))"
        by (rule rhe_mono)
      then show ?thesis
        by (simp only: rnd_grid(1) [OF le] rhe_of_int)
    qed
    moreover have "?p \<le> rnd b"
    proof -
      have le: "?qb \<le> ?qb + 52" by simp
      have "?p / two_p ?qb \<le> b / two_p ?qb"
        using pb' by (intro divide_right_mono) simp_all
      moreover have "?p / two_p ?qb = of_int (1 * 2 ^ nat (?qb + 52 - ?qb))"
        by (rule grid_div [OF le])
      ultimately have "rhe (of_int (1 * 2 ^ nat (?qb + 52 - ?qb))) \<le> rhe (b / two_p ?qb)"
        by (metis rhe_mono)
      then show ?thesis
        by (simp only: rnd_grid(2) [OF le] rhe_of_int)
    qed
    ultimately show ?thesis by simp
  qed
qed

lemma rnd_mono:
  assumes "a \<le> b"
  shows "rnd a \<le> rnd b"
proof -
  consider "0 \<le> a" | "b \<le> 0" | "a < 0" "0 < b" by linarith
  then show ?thesis
  proof cases
    case 1
    then show ?thesis using assms by (rule rnd_mono_pos)
  next
    case 2
    with assms have "rnd (- b) \<le> rnd (- a)" by (intro rnd_mono_pos) simp_all
    then show ?thesis by (simp add: rnd_minus)
  next
    case 3
    then have "rnd a \<le> 0" "0 \<le> rnd b"
      by (simp_all add: rnd_nonpos rnd_nonneg)
    then show ?thesis by simp
  qed
qed

lemma rnd_evalI:
  assumes "- 1074 < q" "two_p (q + 52) \<le> \<bar>x\<bar>" "\<bar>x\<bar> < two_p (q + 53)"
    "\<bar>x / two_p q - of_int n\<bar> < 1 / 2"
  shows "rnd x = of_int n * two_p q"
proof -
  have "ulp_exp x = q" using assms(1-3) by (rule ulp_exp_eqI)
  moreover have "rhe (x / two_p q) = n" using assms(4) by (rule rhe_eqI)
  ultimately show ?thesis by (simp add: rnd_def)
qed

subsection \<open>Rounding to a double\<close>

lemma neg_two_p_less [simp]: "- two_p a < two_p b"
  using two_p_pos [of a] two_p_pos [of b] by linarith

lemma two_p_not_le0 [simp]: "\<not> two_p k \<le> 0"
  using two_p_pos [of k] by linarith

lemma two_p_not_less0 [simp]: "\<not> two_p k < 0"
  using two_p_pos [of k] by linarith

lemma two_p_not_le_neg [simp]: "\<not> two_p a \<le> - two_p b"
  using two_p_pos [of a] two_p_pos [of b] by linarith

lemma two_p_one [simp]: "two_p 1 = 2"
  by (simp add: two_p_def)

lemma round64_not_NaN [simp]: "round64 x \<noteq> NaN"
  by (simp add: round64_def Let_def)

lemma round64_zero [simp]: "round64 0 = Fin 0"
  by (simp add: round64_def)

lemma round64_mono: "a \<le> b \<Longrightarrow> fle (round64 a) (round64 b)"
  using rnd_mono [of a b] neg_two_p_less [of 1024 1024]
  by (simp add: round64_def Let_def)

lemma round64_nonneg:
  assumes "0 \<le> x"
  shows "round64 x = PInf \<or> (\<exists>r. round64 x = Fin r \<and> 0 \<le> r)"
  using rnd_nonneg [OF assms] by (simp add: round64_def Let_def)

lemma round64_exact:
  assumes "\<bar>m\<bar> < 2 ^ 53" "- 1074 \<le> e" "e + 53 \<le> 1024"
  shows "round64 (of_int m * two_p e) = Fin (of_int m * two_p e)"
proof -
  let ?x = "of_int m * two_p e :: real"
  have r: "rnd ?x = ?x" using assms(1,2) by (rule rnd_exact)
  have "\<bar>?x\<bar> < two_p (e + 53)" using assms(1) by (rule abs_scaled_less)
  also have "\<dots> \<le> two_p 1024" using assms(3) by simp
  finally have "\<bar>?x\<bar> < two_p 1024" .
  then have "\<not> two_p 1024 \<le> ?x" "\<not> ?x \<le> - two_p 1024" by linarith+
  then show ?thesis by (simp only: round64_def Let_def r if_False)
qed

lemma round64_evalI:
  assumes "- 1074 < q" "q + 53 \<le> 1024" "\<bar>n\<bar> < 2 ^ 53"
    "two_p (q + 52) \<le> \<bar>x\<bar>" "\<bar>x\<bar> < two_p (q + 53)"
    "\<bar>x / two_p q - of_int n\<bar> < 1 / 2"
  shows "round64 x = Fin (of_int n * two_p q)"
proof -
  let ?y = "of_int n * two_p q :: real"
  have r: "rnd x = ?y" using assms(1,4,5,6) by (rule rnd_evalI)
  have "\<bar>?y\<bar> < two_p (q + 53)" using assms(3) by (rule abs_scaled_less)
  also have "\<dots> \<le> two_p 1024" using assms(2) by simp
  finally have "\<bar>?y\<bar> < two_p 1024" .
  then have "\<not> two_p 1024 \<le> ?y" "\<not> ?y \<le> - two_p 1024" by linarith+
  then show ?thesis by (simp only: round64_def Let_def r if_False)
qed

lemma round64_of_int:
  assumes "\<bar>k\<bar> < 2 ^ 53"
  shows "round64 (of_int k) = Fin (of_int k)"
  using round64_exact [OF assms, of 0] by simp

lemma round64_one [simp]: "round64 1 = Fin 1"
  using round64_of_int [of 1] by simp

lemma round64_numeral [simp]:
  "(numeral n :: int) < 2 ^ 53 \<Longrightarrow> round64 (numeral n) = Fin (numeral n)"
  using round64_of_int [of "numeral n"] by simp

lemma round64_neg_numeral [simp]:
  "(numeral n :: int) < 2 ^ 53 \<Longrightarrow> round64 (- numeral n) = Fin (- numeral n)"
  using round64_of_int [of "- numeral n"] by simp

lemma round64_overflow: "two_p 1024 \<le> x \<Longrightarrow> round64 x = PInf"
proof -
  assume a: "two_p 1024 \<le> x"
  have "rnd (of_int 1 * two_p 1024) = of_int 1 * two_p 1024"
    by (rule rnd_exact) simp_all
  then have "rnd (two_p 1024) = two_p 1024" by simp
  with rnd_mono [OF a] have "two_p 1024 \<le> rnd x" by simp
  then show ?thesis by (simp add: round64_def Let_def)
qed

lemma two_p_double: "two_p k + two_p k = two_p (k + 1)"
  by (simp add: two_p_add)

lemma two_p_numeral: "two_p (numeral n) = 2 ^ numeral n"
  by (simp add: two_p_def)

lemma two_p_neg_numeral: "two_p (- numeral n) = 1 / 2 ^ numeral n"
  by (simp add: two_p_def power_int_minus field_simps)

subsection \<open>Comparisons\<close>

lemma fadd_NaN_right [simp]: "fadd x NaN = NaN"
  by (cases x) simp_all

lemma fmul_NaN_right [simp]: "fmul x NaN = NaN"
  by (cases x) simp_all

lemma flt_NaN_right [simp]: "\<not> flt x NaN"
  by (cases x) simp_all

lemma fle_NaN_right [simp]: "\<not> fle x NaN"
  by (cases x) simp_all

lemma flt_imp_fle: "flt a b \<Longrightarrow> fle a b"
  by (cases a; cases b) simp_all

lemma fle_not_flt: "fle a b \<Longrightarrow> \<not> flt b a"
  by (cases a; cases b) simp_all

lemma not_flt_fle: "\<not> flt b a \<Longrightarrow> a \<noteq> NaN \<Longrightarrow> b \<noteq> NaN \<Longrightarrow> fle a b"
  by (cases a; cases b) simp_all

lemma fle_trans: "fle a b \<Longrightarrow> fle b c \<Longrightarrow> fle a c"
  by (cases a; cases b; cases c) simp_all

lemma pymax0_cases: "pymax0 x = PInf \<or> (\<exists>r. pymax0 x = Fin r \<and> 0 \<le> r)"
  by (cases x) (simp_all add: pymax0_def fgt_def)

section \<open>Basic facts\<close>

lemma bindE_Inl [simp]: "bindE (Inl e) f = Inl e"
  by (simp add: bindE_def)

lemma bindE_Inr [simp]: "bindE (Inr x) f = f x"
  by (simp add: bindE_def)

lemma bindE_eq_Inr:
  "bindE m f = Inr y \<longleftrightarrow> (\<exists>x. m = Inr x \<and> f x = Inr y)"
  by (cases m) simp_all

lemma dget_simps [simp]:
  "dget [] k = PNone"
  "dget ((k', v) # d) k = (if k' = k then v else dget d k)"
  by (simp_all add: dget_def dget_default_def)

lemma dget_default_simps [simp]:
  "dget_default [] k x = x"
  "dget_default ((k', v) # d) k x = (if k' = k then v else dget_default d k x)"
  by (simp_all add: dget_default_def)

lemma catch_none_simps [simp]:
  "catch_none (Inl e) = None"
  "catch_none (Inr x) = Some x"
  by (simp_all add: catch_none_def)

text \<open>An int of less than 54 bits is a double, and \<^verbatim>\<open>float\<close> returns it unchanged;
  the int \<open>10 ^ 400\<close> lies beyond the doubles.\<close>

lemma to_float_PInt:
  "to_float B (PInt i) =
     (case round64 (of_int i) of Fin r \<Rightarrow> Inr (Fin r) | _ \<Rightarrow> Inl OverflowError)"
  by simp

declare to_float.simps(3) [simp del]

lemma to_float_int [simp]:
  "\<bar>i\<bar> < 2 ^ 53 \<Longrightarrow> to_float B (PInt i) = Inr (Fin (of_int i))"
  by (simp add: to_float_PInt round64_of_int)

lemma round64_ten_400: "round64 (of_int (10 ^ 400)) = PInf"
proof -
  have "(2::real) ^ 1024 = (2 ^ 8) ^ 128" by (simp only: power_mult [symmetric]) simp
  also have "\<dots> \<le> (10 ^ 3) ^ 128" by (rule power_mono) simp_all
  also have "\<dots> = 10 ^ 384" by (simp only: power_mult [symmetric]) simp
  also have "\<dots> \<le> 10 ^ 400" by (rule power_increasing) simp_all
  finally have "two_p 1024 \<le> of_int (10 ^ 400)"
    by (simp only: two_p_numeral of_int_power of_int_numeral)
  then show ?thesis by (rule round64_overflow)
qed

lemma to_float_ten_400: "to_float B (PInt (10 ^ 400)) = Inl OverflowError"
  by (simp only: to_float_PInt round64_ten_400 pyfloat.case)

section \<open>The constructor and the volume\<close>

lemma BBox3D_init_floats:
  assumes "to_float B a = Inr x0" "to_float B b = Inr y0" "to_float B c = Inr z0"
          "to_float B d = Inr x1" "to_float B e = Inr y1" "to_float B f = Inr z1"
  shows "BBox3D_init B a b c d e f nm = Inr (BBox3D_norm x0 y0 z0 x1 y1 z1 nm)"
  using assms by (simp add: BBox3D_init_def)

lemma BBox3D_init_raises:
  "to_float B a = Inl err \<Longrightarrow> BBox3D_init B a b c d e f nm = Inl err"
  by (simp add: BBox3D_init_def)

lemma swap_ordered:
  "x0 \<noteq> NaN \<Longrightarrow> x1 \<noteq> NaN \<Longrightarrow>
   fle (if fgt x0 x1 then x1 else x0) (if fgt x0 x1 then x0 else x1)"
  by (simp add: fgt_def flt_imp_fle not_flt_fle)

lemma BBox3D_norm_ordered:
  "x0 \<noteq> NaN \<Longrightarrow> x1 \<noteq> NaN \<Longrightarrow>
     fle (minx (BBox3D_norm x0 y0 z0 x1 y1 z1 nm)) (maxx (BBox3D_norm x0 y0 z0 x1 y1 z1 nm))"
  "y0 \<noteq> NaN \<Longrightarrow> y1 \<noteq> NaN \<Longrightarrow>
     fle (miny (BBox3D_norm x0 y0 z0 x1 y1 z1 nm)) (maxy (BBox3D_norm x0 y0 z0 x1 y1 z1 nm))"
  "z0 \<noteq> NaN \<Longrightarrow> z1 \<noteq> NaN \<Longrightarrow>
     fle (minz (BBox3D_norm x0 y0 z0 x1 y1 z1 nm)) (maxz (BBox3D_norm x0 y0 z0 x1 y1 z1 nm))"
  by (simp_all add: BBox3D_norm_def swap_ordered)

lemma BBox3D_norm_ends:
  "(minx (BBox3D_norm x0 y0 z0 x1 y1 z1 nm) = x0 \<and> maxx (BBox3D_norm x0 y0 z0 x1 y1 z1 nm) = x1) \<or>
   (minx (BBox3D_norm x0 y0 z0 x1 y1 z1 nm) = x1 \<and> maxx (BBox3D_norm x0 y0 z0 x1 y1 z1 nm) = x0)"
  "(miny (BBox3D_norm x0 y0 z0 x1 y1 z1 nm) = y0 \<and> maxy (BBox3D_norm x0 y0 z0 x1 y1 z1 nm) = y1) \<or>
   (miny (BBox3D_norm x0 y0 z0 x1 y1 z1 nm) = y1 \<and> maxy (BBox3D_norm x0 y0 z0 x1 y1 z1 nm) = y0)"
  "(minz (BBox3D_norm x0 y0 z0 x1 y1 z1 nm) = z0 \<and> maxz (BBox3D_norm x0 y0 z0 x1 y1 z1 nm) = z1) \<or>
   (minz (BBox3D_norm x0 y0 z0 x1 y1 z1 nm) = z1 \<and> maxz (BBox3D_norm x0 y0 z0 x1 y1 z1 nm) = z0)"
  by (simp_all add: BBox3D_norm_def)

text \<open>Each factor of the volume is an infinity or a finite number that is not
  negative; a product of such factors is of the same kind, or NaN.\<close>

lemma pymax0_nonneg: "fle (Fin 0) (pymax0 x)"
  by (cases x) (simp_all add: pymax0_def fgt_def)

lemma pymax0_fin: "x \<noteq> PInf \<Longrightarrow> \<exists>r. pymax0 x = Fin r \<and> 0 \<le> r"
  by (cases x) (simp_all add: pymax0_def fgt_def)

lemma pymax0_zero: "pymax0 (Fin 0) = Fin 0"
  by (simp add: pymax0_def fgt_def)

lemma fmul_fin_nonneg:
  assumes "0 \<le> x" "0 \<le> y"
  shows "fle (Fin 0) (fmul (Fin x) (Fin y))"
proof -
  from assms have "0 \<le> x * y" by simp
  from round64_nonneg [OF this] show ?thesis by auto
qed

lemma fmul_nonneg_or_nan:
  assumes "a = NaN \<or> fle (Fin 0) a" "fle (Fin 0) b"
  shows "fmul a b = NaN \<or> fle (Fin 0) (fmul a b)"
proof (cases a)
  case (Fin x)
  with assms(1) have x: "0 \<le> x" by simp
  show ?thesis
  proof (cases b)
    case (Fin y)
    with assms(2) have "0 \<le> y" by simp
    with x have "fle (Fin 0) (fmul (Fin x) (Fin y))" by (rule fmul_fin_nonneg)
    with \<open>a = Fin x\<close> Fin show ?thesis by simp
  qed (use assms(2) x \<open>a = Fin x\<close> in auto)
next
  case PInf
  then show ?thesis using assms(2) by (cases b) auto
next
  case NInf
  then show ?thesis using assms(1) by simp
next
  case NaN
  then show ?thesis by simp
qed

lemma volume_nonneg_or_nan: "volume bb = NaN \<or> fge (volume bb) (Fin 0)"
proof -
  let ?ex = "pymax0 (fsub (maxx bb) (minx bb))"
  let ?ey = "pymax0 (fsub (maxy bb) (miny bb))"
  let ?ez = "pymax0 (fsub (maxz bb) (minz bb))"
  have "fmul ?ex ?ey = NaN \<or> fle (Fin 0) (fmul ?ex ?ey)"
    by (rule fmul_nonneg_or_nan) (simp_all add: pymax0_nonneg)
  then have "fmul (fmul ?ex ?ey) ?ez = NaN \<or> fle (Fin 0) (fmul (fmul ?ex ?ey) ?ez)"
    by (rule fmul_nonneg_or_nan) (rule pymax0_nonneg)
  then show ?thesis by (simp add: volume_def fge_def)
qed

lemma volume_in_range_nonneg:
  assumes "volume_in_range bb"
  shows "fge (volume bb) (Fin 0)"
    and "fsub (maxx bb) (minx bb) = Fin 0 \<or> fsub (maxy bb) (miny bb) = Fin 0 \<or>
         fsub (maxz bb) (minz bb) = Fin 0 \<Longrightarrow> volume bb = Fin 0"
proof -
  let ?dx = "fsub (maxx bb) (minx bb)" and ?dy = "fsub (maxy bb) (miny bb)"
  let ?dz = "fsub (maxz bb) (minz bb)"
  from assms obtain a b c where
    a: "pymax0 ?dx = Fin a" "0 \<le> a" and b: "pymax0 ?dy = Fin b" "0 \<le> b" and
    c: "pymax0 ?dz = Fin c" "0 \<le> c"
    unfolding volume_in_range_def using pymax0_fin by metis
  from assms a(1) b(1) have "round64 (a * b) \<noteq> PInf"
    by (simp add: volume_in_range_def)
  moreover from a(2) b(2) have "0 \<le> a * b" by simp
  ultimately obtain p where p: "round64 (a * b) = Fin p" "0 \<le> p"
    using round64_nonneg by blast
  have v: "volume bb = round64 (p * c)"
    by (simp add: volume_def a(1) b(1) c(1) p(1))
  from p(2) c(2) have "0 \<le> p * c" by simp
  from round64_nonneg [OF this] show "fge (volume bb) (Fin 0)"
    by (auto simp: v fge_def)
  assume "?dx = Fin 0 \<or> ?dy = Fin 0 \<or> ?dz = Fin 0"
  then have "a = 0 \<or> b = 0 \<or> c = 0"
    using a(1) b(1) c(1) by (auto simp: pymax0_zero)
  then have "p * c = 0" using p(1) by auto
  then have "round64 (p * c) = Fin 0" by (simp only: round64_zero)
  then show "volume bb = Fin 0" by (simp only: v)
qed

text \<open>The two x coordinates of the sample box below are doubles, and their
  difference is not.\<close>

lemma huge_is_double:
  "round64 (two_p 1023) = Fin (two_p 1023)" "round64 (- two_p 1023) = Fin (- two_p 1023)"
proof -
  have r: "rnd (of_int 1 * two_p 1023) = of_int 1 * two_p 1023"
    by (rule rnd_exact) simp_all
  then have "rnd (two_p 1023) = two_p 1023" by simp
  then show "round64 (two_p 1023) = Fin (two_p 1023)"
    by (simp add: round64_def Let_def)
  have "rnd (of_int (- 1) * two_p 1023) = of_int (- 1) * two_p 1023"
    by (rule rnd_exact) simp_all
  then have "rnd (- two_p 1023) = - two_p 1023" by simp
  then show "round64 (- two_p 1023) = Fin (- two_p 1023)"
    by (simp add: round64_def Let_def)
qed

lemma huge_extent: "fsub (Fin (two_p 1023)) (Fin (- two_p 1023)) = PInf"
  by (simp add: fsub_def two_p_double round64_overflow)

text \<open>
  Claim C8, as the specification words it, fails in two ways. The two finite doubles
  \<open>-2 ^ 1023\<close> and \<open>2 ^ 1023\<close> as the x coordinates give an x extent that overflows
  to infinity, and with the y extent 0 the volume is infinity times 0, which is NaN:
  it is neither at least 0 nor 0, although an extent is 0. And the int \<open>10 ^ 400\<close>
  is a numeric coordinate for which no box is constructed: \<^verbatim>\<open>float\<close> raises
  OverflowError.
\<close>

theorem BBox3D_volume_counterexample:
  "BBox3D_init sample_builtins (PFloat (Fin (- two_p 1023))) (PInt 0) (PInt 0)
     (PFloat (Fin (two_p 1023))) (PInt 0) (PInt 1) ''w'' = Inr sample_huge_box \<and>
   fsub (maxy sample_huge_box) (miny sample_huge_box) = Fin 0 \<and>
   volume sample_huge_box = NaN \<and>
   \<not> fge (volume sample_huge_box) (Fin 0) \<and>
   BBox3D_init sample_builtins (PInt (10 ^ 400)) (PInt 0) (PInt 0) (PInt 1) (PInt 1) (PInt 1)
     ''w'' = Inl OverflowError"
proof -
  have v: "volume sample_huge_box = NaN"
    by (simp add: volume_def sample_huge_box_def huge_extent)
       (simp add: fsub_def pymax0_def fgt_def)
  have "BBox3D_init sample_builtins (PFloat (Fin (- two_p 1023))) (PInt 0) (PInt 0)
     (PFloat (Fin (two_p 1023))) (PInt 0) (PInt 1) ''w'' = Inr sample_huge_box"
    by (simp add: BBox3D_init_def BBox3D_norm_def sample_huge_box_def fgt_def)
  moreover have "fsub (maxy sample_huge_box) (miny sample_huge_box) = Fin 0"
    by (simp add: sample_huge_box_def fsub_def)
  moreover have "\<not> fge (volume sample_huge_box) (Fin 0)"
    by (simp add: v fge_def)
  moreover have "BBox3D_init sample_builtins (PInt (10 ^ 400)) (PInt 0) (PInt 0) (PInt 1)
      (PInt 1) (PInt 1) ''w'' = Inl OverflowError"
    by (rule BBox3D_init_raises) (rule to_float_ten_400)
  ultimately show ?thesis using v by blast
qed

text \<open>
  Claim C8, amended. A box constructed from six values that \<^verbatim>\<open>float\<close> converts, in
  any order, is never rejected: on each axis its two ends are the two coordinates
  given, swapped when the first is greater than the second, so that the lower end is
  at most the upper end whenever neither coordinate is NaN. Its volume is NaN or at
  least 0. When no extent and not the product of the x and y extents overflows to
  infinity, the volume is at least 0, and it is 0 when the extent of some axis is 0.
\<close>

theorem BBox3D_ordered_volume:
  assumes "to_float B a = Inr x0" "to_float B b = Inr y0" "to_float B c = Inr z0"
          "to_float B d = Inr x1" "to_float B e = Inr y1" "to_float B f = Inr z1"
  shows "\<exists>bb. BBox3D_init B a b c d e f nm = Inr bb \<and>
           ((minx bb = x0 \<and> maxx bb = x1) \<or> (minx bb = x1 \<and> maxx bb = x0)) \<and>
           ((miny bb = y0 \<and> maxy bb = y1) \<or> (miny bb = y1 \<and> maxy bb = y0)) \<and>
           ((minz bb = z0 \<and> maxz bb = z1) \<or> (minz bb = z1 \<and> maxz bb = z0)) \<and>
           (x0 \<noteq> NaN \<and> x1 \<noteq> NaN \<longrightarrow> fle (minx bb) (maxx bb)) \<and>
           (y0 \<noteq> NaN \<and> y1 \<noteq> NaN \<longrightarrow> fle (miny bb) (maxy bb)) \<and>
           (z0 \<noteq> NaN \<and> z1 \<noteq> NaN \<longrightarrow> fle (minz bb) (maxz bb)) \<and>
           (volume bb = NaN \<or> fge (volume bb) (Fin 0)) \<and>
           (volume_in_range bb \<longrightarrow>
              fge (volume bb) (Fin 0) \<and>
              (fsub (maxx bb) (minx bb) = Fin 0 \<or> fsub (maxy bb) (miny bb) = Fin 0 \<or>
               fsub (maxz bb) (minz bb) = Fin 0 \<longrightarrow> volume bb = Fin 0))"
proof -
  let ?bb = "BBox3D_norm x0 y0 z0 x1 y1 z1 nm"
  have "BBox3D_init B a b c d e f nm = Inr ?bb"
    using assms by (rule BBox3D_init_floats)
  moreover have "x0 \<noteq> NaN \<and> x1 \<noteq> NaN \<longrightarrow> fle (minx ?bb) (maxx ?bb)"
    "y0 \<noteq> NaN \<and> y1 \<noteq> NaN \<longrightarrow> fle (miny ?bb) (maxy ?bb)"
    "z0 \<noteq> NaN \<and> z1 \<noteq> NaN \<longrightarrow> fle (minz ?bb) (maxz ?bb)"
    by (simp_all add: BBox3D_norm_ordered)
  moreover have "volume_in_range ?bb \<longrightarrow>
              fge (volume ?bb) (Fin 0) \<and>
              (fsub (maxx ?bb) (minx ?bb) = Fin 0 \<or> fsub (maxy ?bb) (miny ?bb) = Fin 0 \<or>
               fsub (maxz ?bb) (minz ?bb) = Fin 0 \<longrightarrow> volume ?bb = Fin 0)"
    using volume_in_range_nonneg [of ?bb] by blast
  ultimately show ?thesis
    using BBox3D_norm_ends [of x0 y0 z0 x1 y1 z1 nm] volume_nonneg_or_nan [of ?bb]
    by blast
qed

text \<open>The x pair is given inverted, y as an int and a bool, z with extent 0.\<close>

theorem BBox3D_ordered_volume_witness:
  "\<exists>bb. BBox3D_init sample_builtins (PInt 3) (PInt 0) (PFloat (Fin 7)) (PInt 1) (PBool True)
           (PInt 7) ''w'' = Inr bb \<and>
         minx bb = Fin 1 \<and> maxx bb = Fin 3 \<and> miny bb = Fin 0 \<and> maxy bb = Fin 1 \<and>
         minz bb = Fin 7 \<and> maxz bb = Fin 7 \<and>
         volume_in_range bb \<and> fsub (maxz bb) (minz bb) = Fin 0 \<and> volume bb = Fin 0"
proof -
  have "\<exists>bb. BBox3D_init sample_builtins (PInt 3) (PInt 0) (PFloat (Fin 7)) (PInt 1) (PBool True)
               (PInt 7) ''w'' = Inr bb \<and>
           ((minx bb = Fin 3 \<and> maxx bb = Fin 1) \<or> (minx bb = Fin 1 \<and> maxx bb = Fin 3)) \<and>
           ((miny bb = Fin 0 \<and> maxy bb = Fin 1) \<or> (miny bb = Fin 1 \<and> maxy bb = Fin 0)) \<and>
           ((minz bb = Fin 7 \<and> maxz bb = Fin 7) \<or> (minz bb = Fin 7 \<and> maxz bb = Fin 7)) \<and>
           (Fin 3 \<noteq> NaN \<and> Fin 1 \<noteq> NaN \<longrightarrow> fle (minx bb) (maxx bb)) \<and>
           (Fin 0 \<noteq> NaN \<and> Fin 1 \<noteq> NaN \<longrightarrow> fle (miny bb) (maxy bb)) \<and>
           (Fin 7 \<noteq> NaN \<and> Fin 7 \<noteq> NaN \<longrightarrow> fle (minz bb) (maxz bb)) \<and>
           (volume bb = NaN \<or> fge (volume bb) (Fin 0)) \<and>
           (volume_in_range bb \<longrightarrow>
              fge (volume bb) (Fin 0) \<and>
              (fsub (maxx bb) (minx bb) = Fin 0 \<or> fsub (maxy bb) (miny bb) = Fin 0 \<or>
               fsub (maxz bb) (minz bb) = Fin 0 \<longrightarrow> volume bb = Fin 0))"
    by (rule BBox3D_ordered_volume) simp_all
  then obtain bb where
    i: "BBox3D_init sample_builtins (PInt 3) (PInt 0) (PFloat (Fin 7)) (PInt 1) (PBool True)
       (PInt 7) ''w'' = Inr bb" and
    x: "(minx bb = Fin 3 \<and> maxx bb = Fin 1) \<or> (minx bb = Fin 1 \<and> maxx bb = Fin 3)"
       "fle (minx bb) (maxx bb)" and
    y: "(miny bb = Fin 0 \<and> maxy bb = Fin 1) \<or> (miny bb = Fin 1 \<and> maxy bb = Fin 0)"
       "fle (miny bb) (maxy bb)" and
    z: "minz bb = Fin 7" "maxz bb = Fin 7" and
    v: "volume_in_range bb \<longrightarrow>
          (fsub (maxx bb) (minx bb) = Fin 0 \<or> fsub (maxy bb) (miny bb) = Fin 0 \<or>
           fsub (maxz bb) (minz bb) = Fin 0 \<longrightarrow> volume bb = Fin 0)"
    by auto
  from x have x': "minx bb = Fin 1" "maxx bb = Fin 3" by auto
  from y have y': "miny bb = Fin 0" "maxy bb = Fin 1" by auto
  have r: "volume_in_range bb"
    by (simp add: volume_in_range_def x' y' z fsub_def pymax0_def fgt_def)
  have "fsub (maxz bb) (minz bb) = Fin 0"
    by (simp add: z fsub_def)
  with v r i x' y' z show ?thesis by blast
qed

section \<open>The classifier follows the per-axis tests\<close>

text \<open>
  The two tests on the ends of the ranges say what their names say about the ranges
  as sets of points, for finite ends, a candidate range that is not inverted and,
  for the second test, a widened container range that is not inverted either.
\<close>

lemma range_within_iff_subset:
  "lo \<le> hi \<Longrightarrow>
   range_within (Fin lo) (Fin hi) (Fin LO) (Fin HI) \<longleftrightarrow> {lo..hi} \<subseteq> {LO..HI}"
  by (auto simp: range_within_def)

lemma ranges_intersect_iff_meet:
  assumes "lo \<le> hi" "LO \<le> HI"
  shows "ranges_intersect (Fin lo) (Fin hi) (Fin LO) (Fin HI) \<longleftrightarrow> {lo..hi} \<inter> {LO..HI} \<noteq> {}"
  using assms by (auto simp: ranges_intersect_def)

lemma inside_all_overlap_all:
  assumes "fle (minx e) (maxx e)" "fle (miny e) (maxy e)" "fle (minz e) (maxz e)"
    "inside_all c e eps"
  shows "overlap_all c e eps"
  using assms
  by (auto simp: inside_all_def overlap_all_def range_within_def ranges_intersect_def
      intro: fle_trans)

text \<open>The default epsilon against the bounds 0, 1 and 10 of the sample boxes: the
  lower bound is exact, the upper bounds are rounded.\<close>

lemma eps_lo: "fsub (Fin 0) sample_eps = Fin (- (7378697629483821 / 2 ^ 66))"
  using round64_exact [of "-7378697629483821" "-66"]
  by (simp add: sample_eps_def fsub_def two_p_neg_numeral)


lemma eps_hi_10: "fadd (Fin 10) sample_eps = Fin (2814777914604231 / 2 ^ 48)"
  using round64_evalI [of "-49" 5629555829208462 "10 + 7378697629483821 / 2 ^ 66"]
  by (simp add: sample_eps_def two_p_numeral two_p_neg_numeral)

text \<open>
  Claim C1. For every container box, candidate box and epsilon the classifier returns
  FullyContained exactly when on each of the three axes the candidate's range lies
  within the container's range widened by epsilon at both ends; it returns
  PartiallyContained exactly when that is not so and on each axis the candidate's
  range meets the widened range of the container; it returns Outside exactly when
  neither holds. The test for full containment comes first, so a box that passes it
  is never reported as partial.
\<close>

theorem classify_by_axis_tests:
  "(classify_containment_aabb c e eps = FullyContained \<longleftrightarrow> inside_all c e eps) \<and>
   (classify_containment_aabb c e eps = PartiallyContained \<longleftrightarrow>
      \<not> inside_all c e eps \<and> overlap_all c e eps) \<and>
   (classify_containment_aabb c e eps = Outside \<longleftrightarrow>
      \<not> inside_all c e eps \<and> \<not> overlap_all c e eps)"
  by (simp add: classify_containment_aabb_def inside_all_def overlap_all_def
      range_within_def ranges_intersect_def fge_def Let_def)

text \<open>The box (1,1,1)-(2,2,2) in the box (0,0,0)-(10,10,10) passes both tests and is
  reported as fully contained.\<close>

theorem classify_by_axis_tests_witness:
  "inside_all (fbox 0 0 0 10 10 10 ''Room'') (fbox 1 1 1 2 2 2 ''A'') sample_eps \<and>
   overlap_all (fbox 0 0 0 10 10 10 ''Room'') (fbox 1 1 1 2 2 2 ''A'') sample_eps \<and>
   classify_containment_aabb (fbox 0 0 0 10 10 10 ''Room'')
     (fbox 1 1 1 2 2 2 ''A'') sample_eps = FullyContained"
  using classify_by_axis_tests [of "fbox 0 0 0 10 10 10 ''Room''"
      "fbox 1 1 1 2 2 2 ''A''" sample_eps]
  by (simp add: inside_all_def overlap_all_def range_within_def ranges_intersect_def
      fbox_def eps_lo eps_hi_10)

subsection \<open>Translation\<close>

text \<open>
  Every pair of boxes gets one of the three outcomes, and they exclude each other
  as values of one function do.
\<close>

lemma classify_one_outcome:
  "classify_containment_aabb c e eps = FullyContained \<or>
   classify_containment_aabb c e eps = PartiallyContained \<or>
   classify_containment_aabb c e eps = Outside"
  by (cases "classify_containment_aabb c e eps") simp_all













section \<open>The derivation strategies on records\<close>

text \<open>
  Claim C5. The claim is that a direct box whose corner records spell their keys X, Y
  and Z is read. The function reads the corner records under the lower-case keys
  only: on such a record every coordinate is None, \<^verbatim>\<open>float(None)\<close> raises inside
  the \<^verbatim>\<open>try\<close>, and the strategy returns None.
\<close>

theorem direct_dict_capital_keys_none:
  "bbox_from_direct_dict B sample_capital_bbox nm = None"
  by (simp add: bbox_from_direct_dict_def sample_capital_bbox_def sample_capital_point_def
      py_or_def attr_get_def BBox3D_init_def)

text \<open>
  Claim C4. The claim is that a vertex that does not parse as a whole adds to no
  axis. The second vertex of the sample has an x and neither y nor z: its x is
  appended before the conversion of y raises, and the box reaches to x = 100 although
  the one vertex that parses is the origin.
\<close>

theorem mesh_partial_vertex_counts:
  "bbox_from_mesh_vertices B sample_mesh nm =
     Some \<lparr> minx = Fin 0, miny = Fin 0, minz = Fin 0,
            maxx = Fin 100, maxy = Fin 0, maxz = Fin 0, name = nm \<rparr>"
  by (simp add: bbox_from_mesh_vertices_def sample_mesh_def sample_point_def py_or_def
      read_coord_def attr_get2_def BBox3D_norm_def fgt_def)

lemma bad_base_boundary_height:
  "bbox_from_boundary_height B sample_bad_base nm = Inl TypeError"
  by (simp add: bbox_from_boundary_height_def sample_bad_base_def py_or_def
      read_coord_def attr_get2_def)

lemma bad_base_name: "element_name B sample_bad_base = Inr ''Room 1''"
  by (simp add: element_name_def sample_bad_base_def name_keys_def py_str_def)

lemma bad_base_direct:
  "bbox_from_direct_dict B
     (py_or (py_or (py_or (py_or (dget sample_bad_base ''bbox'') (dget sample_bad_base ''BBox''))
                          (dget sample_bad_base ''boundingBox''))
                   (dget sample_bad_base ''BoundingBox''))
            (PDict [])) nm = None"
  by (simp add: sample_bad_base_def py_or_def bbox_from_direct_dict_def attr_get_def
      BBox3D_init_def)

lemma bad_base_mesh: "bbox_from_mesh_vertices B sample_bad_base nm = None"
  by (simp add: sample_bad_base_def py_or_def bbox_from_mesh_vertices_def)

lemma bad_base_compute: "compute_bbox_from_element B sample_bad_base = Inl TypeError"
  by (simp add: compute_bbox_from_element_def bad_base_name bad_base_boundary_height
      bad_base_direct bad_base_mesh)

text \<open>
  Claim C2. The claim is that no strategy lets an exception out. The boundary and
  height strategy converts the base elevation outside of any \<^verbatim>\<open>try\<close>: for a room
  whose base elevation is a record, the TypeError of \<^verbatim>\<open>float\<close> leaves the strategy,
  the derivation, and the analysis, be the room the container or a candidate.
\<close>

theorem boundary_height_raises:
  "bbox_from_boundary_height B sample_bad_base nm = Inl TypeError \<and>
   compute_bbox_from_element B sample_bad_base = Inl TypeError \<and>
   analyze_containment_by_bboxes B sample_bad_base cands eps = Inl TypeError \<and>
   analyze_loop B cbb eps st (sample_bad_base # rest) = Inl TypeError"
  by (simp add: bad_base_boundary_height bad_base_compute analyze_containment_by_bboxes_def
      analyze_step_def)

subsection \<open>Center and size\<close>

text \<open>The two ends that the strategy hands to the constructor are never swapped:
  the center minus a half size is not greater than the center plus it.\<close>

lemma half_size_cases:
  "half_size s = NaN \<or> half_size s = PInf \<or> (\<exists>r. half_size s = Fin r \<and> 0 \<le> r)"
proof (cases s)
  case (Fin x)
  have "0 \<le> \<bar>x\<bar> * (1 / 2)" by simp
  from round64_nonneg [OF this] Fin show ?thesis
    by (auto simp: half_size_def)
qed (simp_all add: half_size_def)

lemma half_no_swap: "\<not> fgt (fsub c (half_size s)) (fadd c (half_size s))"
proof -
  from half_size_cases [of s] consider "half_size s = NaN" | "half_size s = PInf"
    | r where "half_size s = Fin r" "0 \<le> r" by blast
  then show ?thesis
  proof cases
    case 1
    then show ?thesis by (simp add: fgt_def fsub_def)
  next
    case 2
    then show ?thesis by (cases c) (simp_all add: fgt_def fsub_def)
  next
    case 3
    show ?thesis
    proof (cases c)
      case (Fin x)
      from 3(2) have "x + - r \<le> x + r" by simp
      then have "fle (round64 (x + - r)) (round64 (x + r))" by (rule round64_mono)
      then have "\<not> flt (round64 (x + r)) (round64 (x + - r))" by (rule fle_not_flt)
      with Fin 3(1) show ?thesis by (simp add: fgt_def fsub_def)
    qed (simp_all add: 3(1) fgt_def fsub_def)
  qed
qed

lemma half_box:
  "BBox3D_norm (fsub cx (half_size sx)) (fsub cy (half_size sy)) (fsub cz (half_size sz))
               (fadd cx (half_size sx)) (fadd cy (half_size sy)) (fadd cz (half_size sz)) nm =
   \<lparr> minx = fsub cx (half_size sx), miny = fsub cy (half_size sy),
     minz = fsub cz (half_size sz),
     maxx = fadd cx (half_size sx), maxy = fadd cy (half_size sy),
     maxz = fadd cz (half_size sz),
     name = nm \<rparr>"
  by (simp add: BBox3D_norm_def half_no_swap)

lemma half_size_code: "fmul (fabs s) (Fin 0.5) = half_size s"
  by (simp add: half_size_def)

lemma location_size_code:
  assumes "dget elem ''location'' = PDict loc" "dget elem ''size'' = PDict szd"
    "to_float B (dget_default loc ''x'' (dget loc ''X'')) = Inr cx"
    "to_float B (dget_default loc ''y'' (dget loc ''Y'')) = Inr cy"
    "to_float B (dget_default loc ''z'' (dget_default loc ''Z'' (PInt 0))) = Inr cz"
    "to_float B (dget_default szd ''x'' (dget_default szd ''X'' (PInt 0))) = Inr sx"
    "to_float B (dget_default szd ''y'' (dget_default szd ''Y'' (PInt 0))) = Inr sy"
    "to_float B (dget_default szd ''z'' (dget_default szd ''Z'' (PInt 0))) = Inr sz"
  shows "bbox_from_location_size B elem nm =
     Some \<lparr> minx = fsub cx (half_size sx), miny = fsub cy (half_size sy),
            minz = fsub cz (half_size sz),
            maxx = fadd cx (half_size sx), maxy = fadd cy (half_size sy),
            maxz = fadd cz (half_size sz),
            name = nm \<rparr>"
  using assms
  by (simp only: bbox_from_location_size_def bindE_Inr catch_none_simps Let_def
      half_size_code half_box prod.case pyval.case option.case)

lemma location_size_not_dict:
  assumes "(\<forall>loc. dget elem ''location'' \<noteq> PDict loc) \<or> (\<forall>szd. dget elem ''size'' \<noteq> PDict szd)"
  shows "bbox_from_location_size B elem nm = None"
  using assms by (auto simp: bbox_from_location_size_def split: pyval.splits)

lemma location_size_fail:
  assumes "dget elem ''location'' = PDict loc" "dget elem ''size'' = PDict szd"
    "(\<exists>err. to_float B (dget_default loc ''x'' (dget loc ''X'')) = Inl err) \<or>
     (\<exists>err. to_float B (dget_default loc ''y'' (dget loc ''Y'')) = Inl err) \<or>
     (\<exists>err. to_float B (dget_default loc ''z'' (dget_default loc ''Z'' (PInt 0))) = Inl err) \<or>
     (\<exists>err. to_float B (dget_default szd ''x'' (dget_default szd ''X'' (PInt 0))) = Inl err) \<or>
     (\<exists>err. to_float B (dget_default szd ''y'' (dget_default szd ''Y'' (PInt 0))) = Inl err) \<or>
     (\<exists>err. to_float B (dget_default szd ''z'' (dget_default szd ''Z'' (PInt 0))) = Inl err)"
  shows "bbox_from_location_size B elem nm = None"
  using assms by (auto simp: bbox_from_location_size_def bindE_def split: sum.splits)

text \<open>
  Where the size record has an x and a y, under either spelling, the function and
  the strategy as the specification words it agree.
\<close>

lemma location_size_meets_spec:
  assumes "dget elem ''size'' = PDict szd"
    "map_of szd ''x'' \<noteq> None \<or> map_of szd ''X'' \<noteq> None"
    "map_of szd ''y'' \<noteq> None \<or> map_of szd ''Y'' \<noteq> None"
  shows "bbox_from_location_size B elem nm = spec_location_size B elem nm"
proof -
  have x: "dget_default szd ''x'' (dget_default szd ''X'' (PInt 0)) =
           dget_default szd ''x'' (dget szd ''X'')"
    using assms(2) by (auto simp: dget_default_def dget_def split: option.splits)
  have y: "dget_default szd ''y'' (dget_default szd ''Y'' (PInt 0)) =
           dget_default szd ''y'' (dget szd ''Y'')"
    using assms(3) by (auto simp: dget_default_def dget_def split: option.splits)
  show ?thesis
    using assms(1)
    by (auto simp: bbox_from_location_size_def spec_location_size_def x y bindE_def
        half_size_def [symmetric] half_box Let_def split: pyval.splits sum.splits)
qed

text \<open>
  Claim C6, as the specification words it, fails on a size record that has a z only:
  with x and y of the size required the strategy has to fail, and the function
  takes 0 for each of them and returns a box without extent in x and y.
\<close>

theorem location_size_counterexample:
  "bbox_from_location_size sample_builtins sample_size_z_only ''e'' =
     Some \<lparr> minx = Fin 5, miny = Fin 5, minz = Fin (- 1),
            maxx = Fin 5, maxy = Fin 5, maxz = Fin 1, name = ''e'' \<rparr> \<and>
   spec_location_size sample_builtins sample_size_z_only ''e'' = None"
  using round64_of_int [of "-1"]
  by (simp add: bbox_from_location_size_def spec_location_size_def sample_size_z_only_def
      sample_point_def BBox3D_norm_def fsub_def fgt_def)

text \<open>
  Claim C6, amended. Let the center be read as x (else X), y (else Y) and z (else Z,
  else 0) of the location record, and the size as x (else X, else 0), y (else Y,
  else 0) and z (else Z, else 0) of the size record. When both records are
  dictionaries and the six values convert to floats, the box reaches from the center
  minus half of the absolute size to the center plus half of it, on each axis, the
  halves, differences and sums being those of floats. When one of the two is absent
  or no dictionary, or one of the six values does not convert, the strategy returns
  None.
\<close>

theorem location_size_box:
  "(dget elem ''location'' = PDict loc \<and> dget elem ''size'' = PDict szd \<and>
    to_float B (dget_default loc ''x'' (dget loc ''X'')) = Inr cx \<and>
    to_float B (dget_default loc ''y'' (dget loc ''Y'')) = Inr cy \<and>
    to_float B (dget_default loc ''z'' (dget_default loc ''Z'' (PInt 0))) = Inr cz \<and>
    to_float B (dget_default szd ''x'' (dget_default szd ''X'' (PInt 0))) = Inr sx \<and>
    to_float B (dget_default szd ''y'' (dget_default szd ''Y'' (PInt 0))) = Inr sy \<and>
    to_float B (dget_default szd ''z'' (dget_default szd ''Z'' (PInt 0))) = Inr sz
    \<longrightarrow> bbox_from_location_size B elem nm =
          Some \<lparr> minx = fsub cx (half_size sx), miny = fsub cy (half_size sy),
                 minz = fsub cz (half_size sz),
                 maxx = fadd cx (half_size sx), maxy = fadd cy (half_size sy),
                 maxz = fadd cz (half_size sz),
                 name = nm \<rparr>) \<and>
   ((\<forall>l. dget elem ''location'' \<noteq> PDict l) \<or> (\<forall>s. dget elem ''size'' \<noteq> PDict s)
    \<longrightarrow> bbox_from_location_size B elem nm = None) \<and>
   (dget elem ''location'' = PDict loc \<and> dget elem ''size'' = PDict szd \<and>
    ((\<exists>err. to_float B (dget_default loc ''x'' (dget loc ''X'')) = Inl err) \<or>
     (\<exists>err. to_float B (dget_default loc ''y'' (dget loc ''Y'')) = Inl err) \<or>
     (\<exists>err. to_float B (dget_default loc ''z'' (dget_default loc ''Z'' (PInt 0))) = Inl err) \<or>
     (\<exists>err. to_float B (dget_default szd ''x'' (dget_default szd ''X'' (PInt 0))) = Inl err) \<or>
     (\<exists>err. to_float B (dget_default szd ''y'' (dget_default szd ''Y'' (PInt 0))) = Inl err) \<or>
     (\<exists>err. to_float B (dget_default szd ''z'' (dget_default szd ''Z'' (PInt 0))) = Inl err))
    \<longrightarrow> bbox_from_location_size B elem nm = None)"
  using location_size_code [of elem loc szd B cx cy cz sx sy sz nm]
    location_size_not_dict [of elem B nm]
    location_size_fail [of elem loc szd B nm]
  by blast

text \<open>The scenario of the specification: center (5,5,0) and size (2,2,2) give the
  box (4,4,-1)-(6,6,1).\<close>

theorem location_size_box_witness:
  "bbox_from_location_size sample_builtins sample_location_size ''e'' =
     Some \<lparr> minx = Fin 4, miny = Fin 4, minz = Fin (- 1),
            maxx = Fin 6, maxy = Fin 6, maxz = Fin 1, name = ''e'' \<rparr>"
  using location_size_box [of sample_location_size
      "[(''x'', PInt 5), (''y'', PInt 5), (''z'', PInt 0)]"
      "[(''x'', PInt 2), (''y'', PInt 2), (''z'', PInt 2)]"
      sample_builtins "Fin 5" "Fin 5" "Fin 0" "Fin 2" "Fin 2" "Fin 2" "''e''"]
    round64_of_int [of "-1"]
  by (simp add: sample_location_size_def sample_point_def half_size_def fsub_def)

section \<open>The analysis\<close>

subsection \<open>One candidate\<close>

lemma compute_bbox_name:
  assumes "compute_bbox_from_element B e = Inr x"
  shows "\<exists>nm. element_name B e = Inr nm"
  using assms by (auto simp: compute_bbox_from_element_def bindE_eq_Inr)

lemma analyze_step_raise:
  "compute_bbox_from_element B e = Inl err \<Longrightarrow> analyze_step B cbb eps st e = Inl err"
  by (simp add: analyze_step_def)

lemma analyze_step_skipped:
  assumes "compute_bbox_from_element B e = Inr None" "element_name B e = Inr nm"
  shows "analyze_step B cbb eps st e =
           Inr (st\<lparr> skipped := skipped st @ [skipped_entry e nm] \<rparr>)"
  using assms by (simp add: analyze_step_def)

lemma analyze_step_outside:
  assumes "compute_bbox_from_element B e = Inr (Some bb)"
    "classify_containment_aabb cbb bb eps = Outside"
  shows "analyze_step B cbb eps st e = Inr st"
  using assms by (simp add: analyze_step_def)

lemma analyze_step_contained:
  assumes "compute_bbox_from_element B e = Inr (Some bb)"
    "classify_containment_aabb cbb bb eps \<noteq> Outside" "element_name B e = Inr nm"
  shows "analyze_step B cbb eps st e =
           add_contained st (contained_rec e nm (classify_containment_aabb cbb bb eps) bb)"
  using assms by (simp add: analyze_step_def)

text \<open>What a step that returns has done: one of three things.\<close>

lemma analyze_step_cases:
  assumes "analyze_step B cbb eps st e = Inr st'"
  shows "(is_skipped B e \<and> (\<exists>nm. st' = st\<lparr> skipped := skipped st @ [skipped_entry e nm] \<rparr>)) \<or>
         (is_outside B cbb eps e \<and> st' = st) \<or>
         (is_contained B cbb eps e \<and>
            (\<exists>r. c_id r = elem_id e \<and> c_containment_type r \<noteq> Outside \<and> hashable (c_category r) \<and>
               st' = st\<lparr> contained := contained st @ [r],
                         summary := count_ctype (c_containment_type r) (summary st),
                         grouped_by_category :=
                           setdefault_append (grouped_by_category st) (c_category r) r \<rparr>))"
proof (cases "compute_bbox_from_element B e")
  case (Inl err)
  then show ?thesis using assms by (simp add: analyze_step_raise)
next
  case (Inr bbo)
  then obtain nm where nm: "element_name B e = Inr nm"
    using compute_bbox_name by blast
  show ?thesis
  proof (cases bbo)
    case None
    with Inr nm assms show ?thesis
      by (auto simp: analyze_step_skipped is_skipped_def)
  next
    case (Some bb)
    show ?thesis
    proof (cases "classify_containment_aabb cbb bb eps = Outside")
      case True
      with Inr Some assms show ?thesis
        by (auto simp: analyze_step_outside is_outside_def)
    next
      case False
      let ?r = "contained_rec e nm (classify_containment_aabb cbb bb eps) bb"
      from Inr Some False nm assms have a: "add_contained st ?r = Inr st'"
        by (simp add: analyze_step_contained)
      then have h: "hashable (c_category ?r)"
        by (auto simp: add_contained_def split: if_splits)
      with a have "st' = st\<lparr> contained := contained st @ [?r],
                         summary := count_ctype (c_containment_type ?r) (summary st),
                         grouped_by_category :=
                           setdefault_append (grouped_by_category st) (c_category ?r) ?r \<rparr>"
        by (simp add: add_contained_def)
      moreover have "c_id ?r = elem_id e" "c_containment_type ?r \<noteq> Outside"
        using False by (simp_all add: contained_rec_def)
      moreover have "is_contained B cbb eps e"
        using Inr Some False by (simp add: is_contained_def)
      ultimately show ?thesis using h by blast
    qed
  qed
qed

lemma outcomes_exclusive:
  "\<not> (is_skipped B e \<and> is_contained B cbb eps e)"
  "\<not> (is_skipped B e \<and> is_outside B cbb eps e)"
  "\<not> (is_contained B cbb eps e \<and> is_outside B cbb eps e)"
  by (auto simp: is_skipped_def is_contained_def is_outside_def split: sum.splits option.splits)

subsection \<open>The grouping\<close>

lemma key_eq_refl [simp]: "key_eq k k"
  by (simp add: key_eq_def)

lemma key_eq_sym: "key_eq a b \<Longrightarrow> key_eq b a"
  by (simp add: key_eq_def)

lemma key_eq_trans: "key_eq a b \<Longrightarrow> key_eq b c \<Longrightarrow> key_eq a c"
  by (simp add: key_eq_def)

lemma setdefault_append_sizes:
  "sum_list (map (\<lambda>kg. length (snd kg)) (setdefault_append g k r)) =
   Suc (sum_list (map (\<lambda>kg. length (snd kg)) g))"
  by (induction g k r rule: setdefault_append.induct) simp_all

lemma setdefault_append_keys:
  "map fst (setdefault_append g k r) =
     (if \<exists>k' \<in> set (map fst g). key_eq k' k then map fst g else map fst g @ [k])"
  by (induction g k r rule: setdefault_append.induct) auto

lemma setdefault_append_members:
  "(\<Union>kg \<in> set (setdefault_append g k r). set (snd kg)) = insert r (\<Union>kg \<in> set g. set (snd kg))"
  by (induction g k r rule: setdefault_append.induct) auto

lemma setdefault_append_group_key:
  assumes "\<forall>kg \<in> set g. \<forall>x \<in> set (snd kg). key_eq (fst kg) (cat x)"
  shows "\<forall>kg \<in> set (setdefault_append g (cat r) r). \<forall>x \<in> set (snd kg). key_eq (fst kg) (cat x)"
  using assms by (induction g "cat r" r rule: setdefault_append.induct) auto

lemma group_records_snoc:
  "group_records (rs @ [r]) = setdefault_append (group_records rs) (c_category r) r"
  by (simp add: group_records_def)

lemma group_records_sizes:
  "sum_list (map (\<lambda>kg. length (snd kg)) (group_records rs)) = length rs"
proof (induction rs rule: rev_induct)
  case Nil
  show ?case by (simp add: group_records_def)
next
  case (snoc r rs)
  then show ?case
    using setdefault_append_sizes [of "group_records rs" "c_category r" r]
    by (simp add: group_records_snoc)
qed

lemma group_records_members:
  "(\<Union>kg \<in> set (group_records rs). set (snd kg)) = set rs"
proof (induction rs rule: rev_induct)
  case Nil
  show ?case by (simp add: group_records_def)
next
  case (snoc r rs)
  then show ?case by (simp add: group_records_snoc setdefault_append_members)
qed

lemma group_records_group_key:
  "\<forall>kg \<in> set (group_records rs). \<forall>x \<in> set (snd kg). key_eq (fst kg) (c_category x)"
proof (induction rs rule: rev_induct)
  case Nil
  show ?case by (simp add: group_records_def)
next
  case (snoc r rs)
  then show ?case
    unfolding group_records_snoc by (rule setdefault_append_group_key)
qed

lemma setdefault_append_classes:
  "(\<lambda>kg. key_class (fst kg)) ` set (setdefault_append g k r) =
   insert (key_class k) ((\<lambda>kg. key_class (fst kg)) ` set g)"
  by (induction g k r rule: setdefault_append.induct) (auto simp: key_eq_def)

lemma setdefault_append_distinct:
  "distinct (map (\<lambda>kg. key_class (fst kg)) g) \<Longrightarrow>
   distinct (map (\<lambda>kg. key_class (fst kg)) (setdefault_append g k r))"
proof (induction g k r rule: setdefault_append.induct)
  case (1 k r)
  show ?case by simp
next
  case (2 k' rs g k r)
  show ?case
  proof (cases "key_eq k' k")
    case True
    with 2 show ?thesis by simp
  next
    case False
    with 2 have "distinct (map (\<lambda>kg. key_class (fst kg)) (setdefault_append g k r))"
      by simp
    moreover have "key_class k' \<notin> (\<lambda>kg. key_class (fst kg)) ` set (setdefault_append g k r)"
      using 2(2) False by (simp add: setdefault_append_classes key_eq_def)
    ultimately show ?thesis using False by simp
  qed
qed

lemma group_records_distinct:
  "distinct (map (\<lambda>kg. key_class (fst kg)) (group_records rs))"
proof (induction rs rule: rev_induct)
  case Nil
  show ?case by (simp add: group_records_def)
next
  case (snoc r rs)
  then show ?case
    unfolding group_records_snoc by (rule setdefault_append_distinct)
qed

lemma first_seen_has:
  "(\<exists>k' \<in> set (first_seen ks). key_eq k' k) \<longleftrightarrow> (\<exists>k' \<in> set ks. key_eq k' k)"
proof (induction ks rule: first_seen.induct)
  case 1
  show ?case by simp
next
  case (2 k0 ks)
  show ?case
  proof
    assume "\<exists>k' \<in> set (first_seen (k0 # ks)). key_eq k' k"
    then show "\<exists>k' \<in> set (k0 # ks). key_eq k' k"
      using 2 by auto
  next
    assume "\<exists>k' \<in> set (k0 # ks). key_eq k' k"
    then obtain k' where k': "k' \<in> set (k0 # ks)" "key_eq k' k" by blast
    show "\<exists>k' \<in> set (first_seen (k0 # ks)). key_eq k' k"
    proof (cases "key_eq k0 k'")
      case True
      with k' have "key_eq k0 k" by (blast intro: key_eq_trans)
      then show ?thesis by simp
    next
      case False
      with k' have "k' \<in> set (filter (\<lambda>k'. \<not> key_eq k0 k') ks)" by auto
      with k' 2 show ?thesis by auto
    qed
  qed
qed

lemma first_seen_snoc:
  "first_seen (ks @ [k]) =
     (if \<exists>k' \<in> set ks. key_eq k' k then first_seen ks else first_seen ks @ [k])"
proof (induction ks rule: first_seen.induct)
  case 1
  show ?case by simp
next
  case (2 k0 ks)
  let ?f = "filter (\<lambda>k'. \<not> key_eq k0 k') ks"
  show ?case
  proof (cases "key_eq k0 k")
    case True
    then show ?thesis by simp
  next
    case False
    have "(\<exists>k' \<in> set ?f. key_eq k' k) \<longleftrightarrow> (\<exists>k' \<in> set ks. key_eq k' k)"
    proof
      assume "\<exists>k' \<in> set ?f. key_eq k' k"
      then show "\<exists>k' \<in> set ks. key_eq k' k" by auto
    next
      assume "\<exists>k' \<in> set ks. key_eq k' k"
      then obtain k' where k': "k' \<in> set ks" "key_eq k' k" by blast
      with False have "\<not> key_eq k0 k'"
        by (blast intro: key_eq_trans)
      with k' show "\<exists>k' \<in> set ?f. key_eq k' k" by auto
    qed
    with False 2 show ?thesis by simp
  qed
qed

lemma group_records_keys:
  "map fst (group_records rs) = first_seen (map c_category rs)"
proof (induction rs rule: rev_induct)
  case Nil
  show ?case by (simp add: group_records_def)
next
  case (snoc r rs)
  have "(\<exists>k' \<in> set (first_seen (map c_category rs)). key_eq k' (c_category r)) \<longleftrightarrow>
        (\<exists>k' \<in> set (map c_category rs). key_eq k' (c_category r))"
    by (rule first_seen_has)
  with snoc show ?case
    by (simp add: group_records_snoc setdefault_append_keys first_seen_snoc)
qed

text \<open>Every record of the list is in the group of exactly one position.\<close>

lemma group_records_unique:
  assumes "r \<in> set rs"
  shows "\<exists>!i. i < length (group_records rs) \<and> r \<in> set (snd (group_records rs ! i))"
proof -
  let ?g = "group_records rs"
  from assms obtain kg where kg: "kg \<in> set ?g" "r \<in> set (snd kg)"
    using group_records_members [of rs] by blast
  then obtain i where i: "i < length ?g" "?g ! i = kg"
    by (auto simp: in_set_conv_nth)
  have cls: "key_class (fst (?g ! j)) = key_class (c_category r)"
    if "j < length ?g" "r \<in> set (snd (?g ! j))" for j
    using group_records_group_key [of rs] that by (auto simp: key_eq_def)
  have d: "distinct ?g" and inj: "inj_on (\<lambda>kg. key_class (fst kg)) (set ?g)"
    using group_records_distinct [of rs] by (simp_all add: distinct_map)
  show ?thesis
  proof (rule ex1I [of _ i])
    show "i < length ?g \<and> r \<in> set (snd (?g ! i))" using i kg by simp
  next
    fix j
    assume j: "j < length ?g \<and> r \<in> set (snd (?g ! j))"
    then have "key_class (fst (?g ! j)) = key_class (fst (?g ! i))"
      using cls [of j] cls [of i] i kg by simp
    moreover have "?g ! j \<in> set ?g" "?g ! i \<in> set ?g"
      using j i(1) by (simp_all only: nth_mem)
    ultimately have "?g ! j = ?g ! i"
      using inj by (auto dest: inj_onD)
    with j i(1) d show "j = i"
      using nth_eq_iff_index_eq [of ?g j i] by blast
  qed
qed

subsection \<open>The loop\<close>

lemma count_ctype_sum:
  "ct \<noteq> Outside \<Longrightarrow>
   fully_contained (count_ctype ct s) + partially_contained (count_ctype ct s) =
   Suc (fully_contained s + partially_contained s)"
  by (cases ct) (simp_all add: count_ctype_def)

lemma count_ctype_total [simp]:
  "total_candidates (count_ctype ct s) = total_candidates s"
  by (simp add: count_ctype_def)

lemma analyze_loop_Cons_Inr:
  "analyze_step B cbb eps st e = Inr st1 \<Longrightarrow>
   analyze_loop B cbb eps st (e # es) = analyze_loop B cbb eps st1 es"
  by simp

lemma analyze_loop_grouping:
  assumes "analyze_loop B cbb eps st cands = Inr st'"
    "grouped_by_category st = group_records (contained st)"
    "fully_contained (summary st) + partially_contained (summary st) = length (contained st)"
  shows "grouped_by_category st' = group_records (contained st') \<and>
         fully_contained (summary st') + partially_contained (summary st') = length (contained st')"
  using assms
proof (induction cands arbitrary: st)
  case Nil
  then show ?case by simp
next
  case (Cons e es)
  from Cons.prems(1) obtain st1 where
    s1: "analyze_step B cbb eps st e = Inr st1" and l1: "analyze_loop B cbb eps st1 es = Inr st'"
    by (auto split: sum.splits)
  have "grouped_by_category st1 = group_records (contained st1) \<and>
        fully_contained (summary st1) + partially_contained (summary st1) = length (contained st1)"
    using analyze_step_cases [OF s1] Cons.prems(2,3)
    by (elim disjE conjE exE) (simp_all add: group_records_snoc count_ctype_sum)
  with l1 show ?case using Cons.IH by blast
qed

lemma analyze_loop_outcomes:
  assumes "analyze_loop B cbb eps st cands = Inr st'"
  shows "total_candidates (summary st') = total_candidates (summary st) \<and>
         map s_id (skipped st') = map s_id (skipped st) @ map elem_id (filter (is_skipped B) cands) \<and>
         map s_reason (skipped st') =
           map s_reason (skipped st) @
           map (\<lambda>e. ''No geometry/bbox found'') (filter (is_skipped B) cands) \<and>
         map c_id (contained st') =
           map c_id (contained st) @ map elem_id (filter (is_contained B cbb eps) cands) \<and>
         (\<forall>e \<in> set cands. is_skipped B e \<or> is_contained B cbb eps e \<or> is_outside B cbb eps e)"
  using assms
proof (induction cands arbitrary: st)
  case Nil
  then show ?case by simp
next
  case (Cons e es)
  from Cons.prems obtain st1 where
    s1: "analyze_step B cbb eps st e = Inr st1" and l1: "analyze_loop B cbb eps st1 es = Inr st'"
    by (auto split: sum.splits)
  note ih = Cons.IH [OF l1]
  from analyze_step_cases [OF s1] show ?case
  proof (elim disjE conjE exE)
    fix nm
    assume "is_skipped B e" "st1 = st\<lparr>skipped := skipped st @ [skipped_entry e nm]\<rparr>"
    then show ?thesis
      using ih outcomes_exclusive [where B = B and e = e and cbb = cbb and eps = eps]
      by (auto simp: skipped_entry_def)
  next
    assume "is_outside B cbb eps e" "st1 = st"
    then show ?thesis
      using ih outcomes_exclusive [where B = B and e = e and cbb = cbb and eps = eps] by auto
  next
    fix r
    assume "is_contained B cbb eps e" "c_id r = elem_id e"
      "st1 = st\<lparr> contained := contained st @ [r],
                 summary := count_ctype (c_containment_type r) (summary st),
                 grouped_by_category :=
                   setdefault_append (grouped_by_category st) (c_category r) r \<rparr>"
    then show ?thesis
      using ih outcomes_exclusive [where B = B and e = e and cbb = cbb and eps = eps] by auto
  qed
qed

lemma three_way_count:
  assumes "\<forall>x \<in> set xs. P x \<or> Q x \<or> R x"
    "\<forall>x \<in> set xs. \<not> (P x \<and> Q x) \<and> \<not> (P x \<and> R x) \<and> \<not> (Q x \<and> R x)"
  shows "length (filter P xs) + length (filter Q xs) + length (filter R xs) = length xs"
  using assms by (induction xs) auto

lemma analyze_result:
  assumes "analyze_containment_by_bboxes B c cands eps = Inr (AnalysisResult r)"
  shows "\<exists>cbb. compute_bbox_from_element B c = Inr (Some cbb) \<and>
           analyze_loop B cbb eps (init_results cbb (length cands)) cands = Inr r"
  using assms
  by (auto simp: analyze_containment_by_bboxes_def bindE_eq_Inr split: option.splits)

lemma analyze_error:
  "(\<exists>m e. analyze_containment_by_bboxes B c cands eps = Inr (AnalysisError m e)) \<longleftrightarrow>
   compute_bbox_from_element B c = Inr None"
  by (cases "compute_bbox_from_element B c")
     (auto simp: analyze_containment_by_bboxes_def bindE_eq_Inr split: option.splits)

lemma analyze_error_value:
  "compute_bbox_from_element B c = Inr None \<Longrightarrow>
   analyze_containment_by_bboxes B c cands eps =
     Inr (AnalysisError ''No bounding box could be derived for container element'' c)"
  by (simp add: analyze_containment_by_bboxes_def)

text \<open>A run over candidates none of which has a box skips them all and returns.\<close>

lemma analyze_loop_all_skipped:
  assumes "\<forall>e \<in> set cands. compute_bbox_from_element B e = Inr None"
  shows "\<exists>st'. analyze_loop B cbb eps st cands = Inr st' \<and>
           length (skipped st') = length (skipped st) + length cands \<and>
           contained st' = contained st"
  using assms
proof (induction cands arbitrary: st)
  case Nil
  then show ?case by simp
next
  case (Cons e es)
  then have c: "compute_bbox_from_element B e = Inr None" by simp
  then obtain nm where nm: "element_name B e = Inr nm"
    using compute_bbox_name by blast
  let ?st1 = "st\<lparr> skipped := skipped st @ [skipped_entry e nm] \<rparr>"
  have s: "analyze_step B cbb eps st e = Inr ?st1"
    using c nm by (rule analyze_step_skipped)
  from Cons.prems have "\<forall>e \<in> set es. compute_bbox_from_element B e = Inr None" by simp
  from Cons.IH [OF this, of ?st1] s show ?case by auto
qed


subsection \<open>The sample run\<close>

lemma compute_box_elem:
  assumes "nm \<noteq> []" "\<bar>a\<bar> < 2 ^ 53" "\<bar>b\<bar> < 2 ^ 53" "\<bar>c\<bar> < 2 ^ 53"
    "\<bar>d\<bar> < 2 ^ 53" "\<bar>e\<bar> < 2 ^ 53" "\<bar>f\<bar> < 2 ^ 53"
  shows "compute_bbox_from_element B
     (sample_box_elem nm (sample_point a b c) (sample_point d e f)) =
   Inr (Some (BBox3D_norm (Fin (of_int a)) (Fin (of_int b)) (Fin (of_int c))
                          (Fin (of_int d)) (Fin (of_int e)) (Fin (of_int f)) nm))"
  using assms
  by (simp add: compute_bbox_from_element_def element_name_def name_keys_def
      sample_box_elem_def sample_point_def py_or_def py_str_def bbox_from_direct_dict_def
      attr_get_def BBox3D_init_def)

lemma name_box_elem: "nm \<noteq> [] \<Longrightarrow> element_name B (sample_box_elem nm lo hi) = Inr nm"
  by (simp add: element_name_def name_keys_def sample_box_elem_def py_str_def)

lemma name_bare: "element_name B sample_bare = Inr ''n1''"
  by (simp add: element_name_def name_keys_def sample_bare_def py_or_def py_str_def)

lemma compute_bare: "compute_bbox_from_element B sample_bare = Inr None"
  by (simp add: compute_bbox_from_element_def name_bare)
     (simp add: sample_bare_def py_or_def bbox_from_direct_dict_def attr_get_def BBox3D_init_def
      bbox_from_mesh_vertices_def bbox_from_boundary_height_def bbox_from_location_size_def)

lemma compute_room:
  "compute_bbox_from_element B sample_room = Inr (Some (fbox 0 0 0 10 10 10 ''Room''))"
  using compute_box_elem [of "''Room''" 0 0 0 10 10 10 B]
  by (simp add: sample_room_def BBox3D_norm_def fbox_def fgt_def)

lemma compute_A:
  "compute_bbox_from_element B sample_A = Inr (Some (fbox 1 1 1 2 2 2 ''A''))"
  using compute_box_elem [of "''A''" 1 1 1 2 2 2 B]
  by (simp add: sample_A_def BBox3D_norm_def fbox_def fgt_def)

lemma compute_B:
  "compute_bbox_from_element B sample_B = Inr (Some (fbox 9 9 9 15 15 15 ''B''))"
  using compute_box_elem [of "''B''" 9 9 9 15 15 15 B]
  by (simp add: sample_B_def BBox3D_norm_def fbox_def fgt_def)

lemma compute_C:
  "compute_bbox_from_element B sample_C = Inr (Some (fbox 20 20 20 21 21 21 ''C''))"
  using compute_box_elem [of "''C''" 20 20 20 21 21 21 B]
  by (simp add: sample_C_def BBox3D_norm_def fbox_def fgt_def)

lemma classify_A:
  "classify_containment_aabb (fbox 0 0 0 10 10 10 ''Room'')
     (fbox 1 1 1 2 2 2 ''A'') sample_eps = FullyContained"
  by (simp add: classify_containment_aabb_def fbox_def fge_def eps_lo eps_hi_10)

lemma classify_B:
  "classify_containment_aabb (fbox 0 0 0 10 10 10 ''Room'')
     (fbox 9 9 9 15 15 15 ''B'') sample_eps = PartiallyContained"
  by (simp add: classify_containment_aabb_def fbox_def fge_def eps_lo eps_hi_10)

lemma classify_C:
  "classify_containment_aabb (fbox 0 0 0 10 10 10 ''Room'')
     (fbox 20 20 20 21 21 21 ''C'') sample_eps = Outside"
  by (simp add: classify_containment_aabb_def fbox_def fge_def eps_lo eps_hi_10)

lemma box_elem_category: "elem_category (sample_box_elem nm lo hi) = PStr ''Uncategorized''"
  by (simp add: elem_category_def sample_box_elem_def py_or_def)

lemma contained_rec_category [simp]: "c_category (contained_rec e nm ct bb) = elem_category e"
  by (simp add: contained_rec_def)

lemma step_C:
  "analyze_step B (fbox 0 0 0 10 10 10 ''Room'') sample_eps st sample_C = Inr st"
  using compute_C classify_C by (rule analyze_step_outside)

lemma name_A: "element_name B sample_A = Inr ''A''"
  by (simp add: sample_A_def name_box_elem)

lemma name_B: "element_name B sample_B = Inr ''B''"
  by (simp add: sample_B_def name_box_elem)

lemma fbox_sel [simp]:
  "minx (fbox x0 y0 z0 x1 y1 z1 nm) = Fin x0" "miny (fbox x0 y0 z0 x1 y1 z1 nm) = Fin y0"
  "minz (fbox x0 y0 z0 x1 y1 z1 nm) = Fin z0" "maxx (fbox x0 y0 z0 x1 y1 z1 nm) = Fin x1"
  "maxy (fbox x0 y0 z0 x1 y1 z1 nm) = Fin y1" "maxz (fbox x0 y0 z0 x1 y1 z1 nm) = Fin z1"
  "name (fbox x0 y0 z0 x1 y1 z1 nm) = nm"
  by (simp_all add: fbox_def)

lemma volume_room: "volume (fbox 0 0 0 10 10 10 nm) = Fin 1000"
  by (simp add: volume_def fbox_def fsub_def pymax0_def fgt_def)

lemma volume_A: "volume (fbox 1 1 1 2 2 2 nm) = Fin 1"
  by (simp add: volume_def fbox_def fsub_def pymax0_def fgt_def)

lemma volume_B: "volume (fbox 9 9 9 15 15 15 nm) = Fin 216"
  by (simp add: volume_def fbox_def fsub_def pymax0_def fgt_def)

lemma rec_A:
  "contained_rec sample_A ''A'' FullyContained (fbox 1 1 1 2 2 2 ''A'') = sample_rec_A"
  by (simp add: contained_rec_def sample_rec_A_def sample_A_def box_elem_category
      elem_id_def to_dict_def volume_A)
     (simp add: sample_box_elem_def py_or_def)

lemma rec_B:
  "contained_rec sample_B ''B'' PartiallyContained (fbox 9 9 9 15 15 15 ''B'') =
     sample_rec_B"
  by (simp add: contained_rec_def sample_rec_B_def sample_B_def box_elem_category
      elem_id_def to_dict_def volume_B)
     (simp add: sample_box_elem_def py_or_def)

lemma step_A_value:
  "analyze_step B (fbox 0 0 0 10 10 10 ''Room'') sample_eps st sample_A =
     add_contained st sample_rec_A"
proof -
  have "classify_containment_aabb (fbox 0 0 0 10 10 10 ''Room'')
          (fbox 1 1 1 2 2 2 ''A'') sample_eps \<noteq> Outside"
    by (simp add: classify_A)
  from analyze_step_contained [OF compute_A this name_A] show ?thesis
    by (simp add: classify_A rec_A)
qed

lemma step_B_value:
  "analyze_step B (fbox 0 0 0 10 10 10 ''Room'') sample_eps st sample_B =
     add_contained st sample_rec_B"
proof -
  have "classify_containment_aabb (fbox 0 0 0 10 10 10 ''Room'')
          (fbox 9 9 9 15 15 15 ''B'') sample_eps \<noteq> Outside"
    by (simp add: classify_B)
  from analyze_step_contained [OF compute_B this name_B] show ?thesis
    by (simp add: classify_B rec_B)
qed

lemma step_bare_value:
  "analyze_step B cbb eps st sample_bare =
     Inr (st\<lparr> skipped := skipped st @
            [\<lparr> s_id = PStr ''n1'', s_name = ''n1'', s_reason = ''No geometry/bbox found'' \<rparr>] \<rparr>)"
  using analyze_step_skipped [OF compute_bare name_bare, where cbb = cbb and eps = eps and st = st]
  by (simp add: skipped_entry_def elem_id_def sample_bare_def py_or_def)

lemma sample_run_value:
  "analyze_containment_by_bboxes B sample_room [sample_A, sample_B, sample_C, sample_bare]
     sample_eps = Inr (AnalysisResult sample_result)"
  by (simp add: analyze_containment_by_bboxes_def compute_room step_A_value step_B_value
      step_C step_bare_value add_contained_def init_results_def count_ctype_def)
     (simp add: sample_result_def sample_rec_A_def sample_rec_B_def to_dict_def volume_room
      key_eq_def)

subsection \<open>The fatal case and the skipped candidates\<close>

text \<open>
  Where the derivation of a box returns none, the analysis does what the
  specification says: for the container it returns the error result, with the fixed
  message and the container element as it was given, and never otherwise; a
  candidate adds one entry to the skipped sequence, with the reason
  ''No geometry/bbox found'', and the loop goes on with the candidates after it.
\<close>

lemma analyze_skip_continues:
  assumes "compute_bbox_from_element B e = Inr None"
  shows "\<exists>nm. element_name B e = Inr nm \<and>
         analyze_loop B cbb eps st (e # rest) =
           analyze_loop B cbb eps
             (st\<lparr> skipped := skipped st @
                  [\<lparr> s_id = elem_id e, s_name = nm,
                     s_reason = ''No geometry/bbox found'' \<rparr>] \<rparr>) rest"
proof -
  from assms obtain nm where nm: "element_name B e = Inr nm"
    using compute_bbox_name by blast
  have "analyze_step B cbb eps st e =
             Inr (st\<lparr> skipped := skipped st @
                    [\<lparr> s_id = elem_id e, s_name = nm,
                       s_reason = ''No geometry/bbox found'' \<rparr>] \<rparr>)"
    using analyze_step_skipped [OF assms nm] by (simp add: skipped_entry_def)
  then have "analyze_loop B cbb eps st (e # rest) =
           analyze_loop B cbb eps
             (st\<lparr> skipped := skipped st @
                  [\<lparr> s_id = elem_id e, s_name = nm,
                     s_reason = ''No geometry/bbox found'' \<rparr>] \<rparr>) rest"
    by (rule analyze_loop_Cons_Inr)
  with nm show ?thesis by blast
qed

text \<open>A derivation that raises is no derivation that returns none: the exception
  leaves the loop and the analysis.\<close>

lemma analyze_raises:
  "compute_bbox_from_element B c = Inl err \<Longrightarrow>
   analyze_containment_by_bboxes B c cands eps = Inl err"
  by (simp add: analyze_containment_by_bboxes_def)

lemma analyze_loop_raises:
  "compute_bbox_from_element B e = Inl err \<Longrightarrow>
   analyze_loop B cbb eps st (e # rest) = Inl err"
  by (simp add: analyze_step_raise)

lemma bad_height_compute: "compute_bbox_from_element B sample_bad_height = Inl TypeError"
proof -
  have n: "element_name B sample_bad_height = Inr ''r2''"
    by (simp add: element_name_def sample_bad_height_def name_keys_def py_str_def py_or_def)
  have d: "bbox_from_direct_dict B
     (py_or (py_or (py_or (py_or (dget sample_bad_height ''bbox'')
                                 (dget sample_bad_height ''BBox''))
                          (dget sample_bad_height ''boundingBox''))
                   (dget sample_bad_height ''BoundingBox''))
            (PDict [])) nm = None" for nm
    by (simp add: sample_bad_height_def py_or_def bbox_from_direct_dict_def attr_get_def
        BBox3D_init_def)
  have m: "bbox_from_mesh_vertices B sample_bad_height nm = None" for nm
    by (simp add: sample_bad_height_def py_or_def bbox_from_mesh_vertices_def)
  have b: "bbox_from_boundary_height B sample_bad_height nm = Inl TypeError" for nm
    by (simp add: bbox_from_boundary_height_def sample_bad_height_def py_or_def
        read_coord_def attr_get2_def)
  show ?thesis
    by (simp add: compute_bbox_from_element_def n d m b)
qed

text \<open>
  Claim C3. The claim is that a container for which no box can be derived gives the
  error result, and that a candidate whose derivation fails is skipped with a reason
  while the run goes on. For a room whose height is a record, the derivation fails
  by raising TypeError (the conversion at line 102 stands outside of any
  \<^verbatim>\<open>try\<close>). With this room as the container the analysis returns no error result:
  it raises. With this room as the second of three candidates the analysis raises as
  well: the room is not skipped, the candidates after it are never looked at, and
  the record of the candidate before it is lost with the result.
\<close>

theorem derivation_raise_aborts:
  "compute_bbox_from_element B sample_bad_height = Inl TypeError \<and>
   analyze_containment_by_bboxes B sample_bad_height cands eps = Inl TypeError \<and>
   analyze_step B (fbox 0 0 0 10 10 10 ''Room'') sample_eps st sample_bad_height =
     Inl TypeError \<and>
   analyze_containment_by_bboxes B sample_room (sample_A # sample_bad_height # rest)
     sample_eps = Inl TypeError"
  by (simp add: bad_height_compute analyze_raises analyze_step_raise
      analyze_containment_by_bboxes_def compute_room step_A_value add_contained_def
      init_results_def sample_rec_A_def)

subsection \<open>The category groups\<close>

lemma analyze_result_grouping:
  assumes "analyze_containment_by_bboxes B c cands eps = Inr (AnalysisResult r)"
  shows "grouped_by_category r = group_records (contained r) \<and>
         fully_contained (summary r) + partially_contained (summary r) = length (contained r)"
proof -
  from analyze_result [OF assms] obtain cbb where
    l: "analyze_loop B cbb eps (init_results cbb (length cands)) cands = Inr r"
    by blast
  show ?thesis
    by (rule analyze_loop_grouping [OF l]) (simp_all add: init_results_def group_records_def)
qed

text \<open>
  Claim C7. In the result of an analysis that returns one, the sizes of the category
  groups add up to the sum of the two counters, which is the number of contained
  records. Every contained record is in the group of exactly one position, every
  record of a group is a contained record of the category of the group, and the
  groups stand in the order in which their categories first appear in the contained
  sequence.
\<close>

theorem groups_partition_contained:
  assumes "analyze_containment_by_bboxes B c cands eps = Inr (AnalysisResult r)"
  shows "sum_list (map (\<lambda>kg. length (snd kg)) (grouped_by_category r)) =
           fully_contained (summary r) + partially_contained (summary r) \<and>
         fully_contained (summary r) + partially_contained (summary r) = length (contained r) \<and>
         (\<forall>x \<in> set (contained r).
            \<exists>!i. i < length (grouped_by_category r) \<and> x \<in> set (snd (grouped_by_category r ! i))) \<and>
         (\<forall>kg \<in> set (grouped_by_category r). \<forall>x \<in> set (snd kg).
            x \<in> set (contained r) \<and> key_eq (fst kg) (c_category x)) \<and>
         map fst (grouped_by_category r) = first_seen (map c_category (contained r))"
proof -
  from analyze_result_grouping [OF assms] have
    g: "grouped_by_category r = group_records (contained r)" and
    n: "fully_contained (summary r) + partially_contained (summary r) = length (contained r)"
    by simp_all
  have "sum_list (map (\<lambda>kg. length (snd kg)) (grouped_by_category r)) = length (contained r)"
    unfolding g by (rule group_records_sizes)
  moreover have "\<forall>x \<in> set (contained r).
      \<exists>!i. i < length (grouped_by_category r) \<and> x \<in> set (snd (grouped_by_category r ! i))"
    unfolding g using group_records_unique by blast
  moreover have "\<forall>kg \<in> set (grouped_by_category r). \<forall>x \<in> set (snd kg).
      x \<in> set (contained r) \<and> key_eq (fst kg) (c_category x)"
    unfolding g
    using group_records_group_key [of "contained r"] group_records_members [of "contained r"]
    by blast
  moreover have "map fst (grouped_by_category r) = first_seen (map c_category (contained r))"
    unfolding g by (rule group_records_keys)
  ultimately show ?thesis using n by simp
qed

text \<open>The run over A, B, C and the bare candidate: one group of two records.\<close>

theorem groups_partition_contained_witness:
  "analyze_containment_by_bboxes sample_builtins sample_room
     [sample_A, sample_B, sample_C, sample_bare] sample_eps = Inr (AnalysisResult sample_result) \<and>
   sum_list (map (\<lambda>kg. length (snd kg)) (grouped_by_category sample_result)) = 2 \<and>
   fully_contained (summary sample_result) + partially_contained (summary sample_result) = 2 \<and>
   length (contained sample_result) = 2 \<and>
   map fst (grouped_by_category sample_result) = [PStr ''Uncategorized'']"
  using groups_partition_contained [OF sample_run_value [of sample_builtins]]
  by (simp add: sample_run_value) (simp add: sample_result_def)

subsection \<open>Every candidate is counted once\<close>

text \<open>
  Claim C10. In the result of an analysis that returns one, the total is the length
  of the candidate list. The skipped sequence holds, in order, the candidates for
  which no box is derived, and the contained sequence holds, in order, the
  candidates whose box is classified as fully or partially contained: the two lists
  of identities are those of two sublists of the candidates. No candidate is in both
  sublists, a candidate classified as outside is in neither, and the three kinds
  together are all the candidates.
\<close>

theorem candidates_counted_once:
  assumes "analyze_containment_by_bboxes B c cands eps = Inr (AnalysisResult r)"
  shows "total_candidates (summary r) = length cands \<and>
         (\<exists>cbb. compute_bbox_from_element B c = Inr (Some cbb) \<and>
            map s_id (skipped r) = map elem_id (filter (is_skipped B) cands) \<and>
            map c_id (contained r) = map elem_id (filter (is_contained B cbb eps) cands) \<and>
            (\<forall>e \<in> set cands. \<not> (is_skipped B e \<and> is_contained B cbb eps e)) \<and>
            (\<forall>e \<in> set cands. is_outside B cbb eps e \<longrightarrow>
               \<not> is_skipped B e \<and> \<not> is_contained B cbb eps e) \<and>
            length (skipped r) + length (contained r) +
              length (filter (is_outside B cbb eps) cands) = length cands)"
proof -
  from analyze_result [OF assms] obtain cbb where
    c: "compute_bbox_from_element B c = Inr (Some cbb)" and
    l: "analyze_loop B cbb eps (init_results cbb (length cands)) cands = Inr r"
    by blast
  from analyze_loop_outcomes [OF l] have
    t: "total_candidates (summary r) = length cands" and
    s: "map s_id (skipped r) = map elem_id (filter (is_skipped B) cands)" and
    k: "map c_id (contained r) = map elem_id (filter (is_contained B cbb eps) cands)" and
    a: "\<forall>e \<in> set cands. is_skipped B e \<or> is_contained B cbb eps e \<or> is_outside B cbb eps e"
    by (simp_all add: init_results_def)
  have x: "\<forall>e \<in> set cands. \<not> (is_skipped B e \<and> is_contained B cbb eps e) \<and>
             \<not> (is_skipped B e \<and> is_outside B cbb eps e) \<and>
             \<not> (is_contained B cbb eps e \<and> is_outside B cbb eps e)"
    using outcomes_exclusive by blast
  have "length (filter (is_skipped B) cands) + length (filter (is_contained B cbb eps) cands) +
          length (filter (is_outside B cbb eps) cands) = length cands"
    using a x by (rule three_way_count)
  moreover have "length (skipped r) = length (filter (is_skipped B) cands)"
    using s by (metis length_map)
  moreover have "length (contained r) = length (filter (is_contained B cbb eps) cands)"
    using k by (metis length_map)
  ultimately have "length (skipped r) + length (contained r) +
              length (filter (is_outside B cbb eps) cands) = length cands"
    by simp
  with c t s k x show ?thesis by blast
qed

text \<open>The run over A, B, C and the bare candidate: four candidates, the bare one
  skipped, A and B contained, C in neither sequence.\<close>

theorem candidates_counted_once_witness:
  "analyze_containment_by_bboxes sample_builtins sample_room
     [sample_A, sample_B, sample_C, sample_bare] sample_eps = Inr (AnalysisResult sample_result) \<and>
   total_candidates (summary sample_result) = 4 \<and>
   map s_id (skipped sample_result) = [PStr ''n1''] \<and>
   map c_id (contained sample_result) = [PStr ''id-A'', PStr ''id-B''] \<and>
   is_outside sample_builtins (fbox 0 0 0 10 10 10 ''Room'') sample_eps sample_C"
  using candidates_counted_once [OF sample_run_value [of sample_builtins]]
  by (simp add: sample_run_value)
     (simp add: sample_result_def sample_rec_A_def sample_rec_B_def is_outside_def
      compute_C classify_C)

end
